theory Spec2Isabelle
  imports Complex_Main "HOL-Library.Sublist" "HOL-Library.List_Lexorder" "HOL-Library.Char_ord"
    "HOL-Library.Log_Nat"
begin

section \<open>Errors and results\<close>

text \<open>
  Every exception of the program is a value. \<open>ValueError\<close> carries the message the
  source gives it, \<open>KeyError\<close> the labels that were not found. \<open>TypeError\<close>,
  \<open>IndexError\<close> and \<open>LengthMismatch\<close> (the \<open>ValueError\<close> pandas raises when a column
  of the wrong length is assigned or a frame is built from arrays of different lengths)
  are raised by pandas and numpy; \<open>FileNotFoundError\<close> by reading a path that does not
  exist; \<open>LibraryError\<close> stands for whatever scikit-learn or the random generator raise.
\<close>

datatype error =
    ValueError string
  | KeyError "string list"
  | TypeError
  | IndexError
  | LengthMismatch
  | FileNotFoundError string
  | LibraryError string

definition bnd :: "error + 'a \<Rightarrow> ('a \<Rightarrow> error + 'b) \<Rightarrow> error + 'b" where
  "bnd m f = (case m of Inl e \<Rightarrow> Inl e | Inr x \<Rightarrow> f x)"

section \<open>Data frames\<close>

text \<open>
  A pandas data frame is a number of rows and an ordered list of named columns. A column
  holds numbers (modelled as reals; missing values are not modelled) or strings.
\<close>

datatype column = NumCol "real list" | StrCol "string list"

record frame =
  nrows :: nat
  cols :: "(string \<times> column) list"

fun col_len :: "column \<Rightarrow> nat" where
  "col_len (NumCol xs) = length xs"
| "col_len (StrCol xs) = length xs"

definition columns :: "frame \<Rightarrow> string list" where
  "columns df = map fst (cols df)"

text \<open>The invariant pandas maintains: column names are distinct here, and every column has one value per row.\<close>

definition wf_frame :: "frame \<Rightarrow> bool" where
  "wf_frame df \<longleftrightarrow> distinct (columns df) \<and> list_all (\<lambda>(n, c). col_len c = nrows df) (cols df)"

text \<open>\<open>df[name]\<close>\<close>

definition getitem :: "frame \<Rightarrow> string \<Rightarrow> error + column" where
  "getitem df name =
     (case map_of (cols df) name of None \<Rightarrow> Inl (KeyError [name]) | Some c \<Rightarrow> Inr c)"

text \<open>\<open>df[names]\<close>: a new frame with the named columns in the order asked for; all labels that are missing are reported.\<close>

definition select :: "frame \<Rightarrow> string list \<Rightarrow> error + frame" where
  "select df names =
     (let missing = filter (\<lambda>n. n \<notin> set (columns df)) names
      in if missing \<noteq> [] then Inl (KeyError missing)
         else Inr \<lparr>nrows = nrows df,
                   cols = map (\<lambda>n. (n, the (map_of (cols df) n))) names\<rparr>)"

text \<open>\<open>df[name] = values\<close>: an existing column is replaced in place, a new one is appended.\<close>

fun assign_col :: "string \<Rightarrow> column \<Rightarrow> (string \<times> column) list \<Rightarrow> (string \<times> column) list" where
  "assign_col name c [] = [(name, c)]"
| "assign_col name c ((n, c') # rest) =
     (if n = name then (n, c) # rest else (n, c') # assign_col name c rest)"

definition setitem :: "frame \<Rightarrow> string \<Rightarrow> column \<Rightarrow> error + frame" where
  "setitem df name c =
     (if col_len c \<noteq> nrows df then Inl LengthMismatch
      else Inr (df\<lparr>cols := assign_col name c (cols df)\<rparr>))"

text \<open>
  Comparison of a column with a number, element by element. On a column of strings
  pandas raises \<open>TypeError\<close> at the first element (an empty one compares to an empty result).
\<close>

fun col_lt :: "column \<Rightarrow> real \<Rightarrow> error + bool list" where
  "col_lt (NumCol xs) k = Inr (map (\<lambda>x. x < k) xs)"
| "col_lt (StrCol xs) k = (if xs = [] then Inr [] else Inl TypeError)"

fun col_gt :: "column \<Rightarrow> real \<Rightarrow> error + bool list" where
  "col_gt (NumCol xs) k = Inr (map (\<lambda>x. x > k) xs)"
| "col_gt (StrCol xs) k = (if xs = [] then Inr [] else Inl TypeError)"

text \<open>\<open>.astype(int)\<close> on a column of booleans, and the sum of two integer columns of one frame.\<close>

definition bools_astype_int :: "bool list \<Rightarrow> int list" where
  "bools_astype_int bs = map (\<lambda>b. if b then 1 else 0) bs"

definition add_cols :: "int list \<Rightarrow> int list \<Rightarrow> int list" where
  "add_cols xs ys = map2 (+) xs ys"

section \<open>The world: frames on the heap and files\<close>

text \<open>
  Data frames are mutable objects; a variable of the program holds a reference. The heap
  maps references to frames, \<open>next_ref\<close> is the next unused reference. A file holds the
  frame that \<open>read_csv\<close> parses from it and \<open>to_csv\<close> writes to it.
\<close>

type_synonym ref = nat

record world =
  heap :: "ref \<Rightarrow> frame option"
  next_ref :: ref
  files :: "string \<Rightarrow> frame option"

definition new_frame :: "frame \<Rightarrow> world \<Rightarrow> ref \<times> world" where
  "new_frame df w =
     (next_ref w, w\<lparr>heap := (heap w)(next_ref w \<mapsto> df), next_ref := Suc (next_ref w)\<rparr>)"

text \<open>Reading a reference; one that was never allocated cannot be held by the program.\<close>

definition deref :: "world \<Rightarrow> ref \<Rightarrow> error + frame" where
  "deref w r = (case heap w r of None \<Rightarrow> Inl (LibraryError ''dangling reference'') | Some df \<Rightarrow> Inr df)"

definition store :: "ref \<Rightarrow> frame \<Rightarrow> world \<Rightarrow> world" where
  "store r df w = w\<lparr>heap := (heap w)(r \<mapsto> df)\<rparr>"

definition read_csv :: "string \<Rightarrow> world \<Rightarrow> error + ref \<times> world" where
  "read_csv path w =
     (case files w path of
        None \<Rightarrow> Inl (FileNotFoundError path)
      | Some df \<Rightarrow> Inr (new_frame df w))"

definition to_csv :: "frame \<Rightarrow> string \<Rightarrow> world \<Rightarrow> world" where
  "to_csv df path w = w\<lparr>files := (files w)(path \<mapsto> df)\<rparr>"

section \<open>Rounding in double precision\<close>

text \<open>
  Python floats are IEEE doubles. The numbers of the model are reals, read as decimal
  literals are: a real \<open>x\<close> stands for the double nearest to it, whose exact value is
  \<open>fl x\<close>. \<open>rint\<close> rounds to the nearest integer with ties going to the even neighbour.
  \<open>binade x\<close> is the exponent \<open>e\<close> with \<open>2^e \<le> |x| < 2^(e+1)\<close>; a double of that binade is a
  multiple of \<open>2^(e-52)\<close> (of \<open>2^(-1074)\<close> below the normal range), and \<open>fl\<close> rounds to the
  nearest such multiple, ties to even. Overflow to infinity is not modelled.
\<close>

definition rint :: "real \<Rightarrow> int" where
  "rint x =
     (let f = \<lfloor>x\<rfloor>; d = x - of_int f
      in if d < 1/2 then f
         else if d > 1/2 then f + 1
         else if even f then f else f + 1)"

definition binade :: "real \<Rightarrow> int" where
  "binade x =
     (let a = \<bar>x\<bar>
      in if a \<ge> 1 then bitlen \<lfloor>a\<rfloor> - 1 else - bitlen (\<lceil>1 / a\<rceil> - 1))"

definition pow2 :: "int \<Rightarrow> real" where
  "pow2 k = (if k \<ge> 0 then 2 ^ nat k else 1 / 2 ^ nat (- k))"

definition fl :: "real \<Rightarrow> real" where
  "fl x =
     (if x = 0 then 0
      else let q = pow2 (max (binade x) (- 1022) - 52)
           in of_int (rint (x / q)) * q)"

text \<open>
  \<open>ndarray.round(decimals)\<close> for a non-negative number of decimals: the double is
  multiplied by \<open>10^decimals\<close>, the product (a double again) is rounded by \<open>rint\<close>, and the
  integer is divided by \<open>10^decimals\<close>. The quotient is the double nearest to the decimal
  \<open>k / 10^decimals\<close>, the double that this decimal denotes as a literal; it is written as
  that decimal here, as the literals \<open>0.7\<close> and \<open>0.4\<close> of the source are.
\<close>

definition np_round :: "nat \<Rightarrow> real \<Rightarrow> real" where
  "np_round decimals x = of_int (rint (fl (fl x * 10 ^ decimals))) / 10 ^ decimals"

section \<open>Loading (data.py)\<close>

definition REQUIRED_COLUMNS :: "string list" where
  "REQUIRED_COLUMNS =
     [''employee_id'', ''dept'', ''tenure_months'', ''last_promotion_months'',
      ''salary_band'', ''manager_span'', ''overtime_hours_month'', ''engagement_score'',
      ''absenteeism_days_month'', ''peer_turnover_rate'', ''performance_score'',
      ''internal_mobility'']"

text \<open>\<open>sep.join(xs)\<close>\<close>

fun join :: "string \<Rightarrow> string list \<Rightarrow> string" where
  "join sep [] = []"
| "join sep [x] = x"
| "join sep (x # y # ys) = x @ sep @ join sep (y # ys)"

definition load_csv :: "string \<Rightarrow> world \<Rightarrow> error + ref \<times> world" where
  "load_csv path w =
     bnd (read_csv path w) (\<lambda>(df, w').
     bnd (deref w' df) (\<lambda>d.
       let missing = filter (\<lambda>col. col \<notin> set (columns d)) REQUIRED_COLUMNS
       in if missing \<noteq> []
          then Inl (ValueError (''Missing required columns: '' @ join '', '' missing))
          else Inr (df, w')))"

text \<open>
  \<open>generate_sample\<close>. The draws of the random generator are a parameter: \<open>rng seed rows\<close>
  gives the eleven arrays drawn (or the error numpy raises for a negative size). The rest
  is the source's own post-processing.
\<close>

record SampleConfig =
  cfg_rows :: int
  cfg_seed :: int

definition default_SampleConfig :: SampleConfig where
  "default_SampleConfig = \<lparr>cfg_rows = 200, cfg_seed = 42\<rparr>"

record sample_draws =
  draw_dept :: "string list"
  draw_tenure :: "int list"
  draw_promo_gap :: "int list"
  draw_salary_band :: "string list"
  draw_manager_span :: "int list"
  draw_overtime :: "real list"
  draw_engagement :: "real list"
  draw_absenteeism :: "real list"
  draw_peer_turnover :: "real list"
  draw_performance :: "real list"
  draw_mobility :: "int list"

definition digit_char :: "nat \<Rightarrow> char" where
  "digit_char d = char_of (d + 48)"

function str_nat :: "nat \<Rightarrow> string" where
  "str_nat n = (if n < 10 then [digit_char n] else str_nat (n div 10) @ [digit_char (n mod 10)])"
  by pat_completeness auto
termination
  by (relation "measure id") auto

definition clip :: "real \<Rightarrow> real \<Rightarrow> real \<Rightarrow> real" where
  "clip lo hi x = min hi (max lo x)"

text \<open>\<open>pd.DataFrame(dict)\<close>: the arrays must have one length.\<close>

definition DataFrame :: "(string \<times> column) list \<Rightarrow> error + frame" where
  "DataFrame data =
     (case data of
        [] \<Rightarrow> Inr \<lparr>nrows = 0, cols = []\<rparr>
      | (n, c) # rest \<Rightarrow>
          if list_all (\<lambda>(n', c'). col_len c' = col_len c) rest
          then Inr \<lparr>nrows = col_len c, cols = data\<rparr>
          else Inl LengthMismatch)"

definition generate_sample ::
  "(int \<Rightarrow> int \<Rightarrow> error + sample_draws) \<Rightarrow> SampleConfig option \<Rightarrow> world \<Rightarrow> error + ref \<times> world" where
  "generate_sample rng config w =
     (let config = (case config of None \<Rightarrow> default_SampleConfig | Some c \<Rightarrow> c);
          rows = cfg_rows config
      in bnd (rng (cfg_seed config) rows) (\<lambda>d.
         let last_promo = map (max 0) (map2 (-) (draw_tenure d) (draw_promo_gap d))
         in bnd (DataFrame
              [(''employee_id'', StrCol (map (\<lambda>idx. ''E'' @ str_nat (1000 + idx)) [0..<nat rows])),
               (''dept'', StrCol (draw_dept d)),
               (''tenure_months'', NumCol (map of_int (draw_tenure d))),
               (''last_promotion_months'', NumCol (map of_int last_promo)),
               (''salary_band'', StrCol (draw_salary_band d)),
               (''manager_span'', NumCol (map of_int (draw_manager_span d))),
               (''overtime_hours_month'', NumCol (map (np_round 1) (map (max 0) (draw_overtime d)))),
               (''engagement_score'', NumCol (map (np_round 1) (map (clip 30 98) (draw_engagement d)))),
               (''absenteeism_days_month'', NumCol (map (np_round 1) (map (clip 0 6) (draw_absenteeism d)))),
               (''peer_turnover_rate'', NumCol (map (np_round 3) (draw_peer_turnover d))),
               (''performance_score'', NumCol (map (np_round 1) (map (clip 40 98) (draw_performance d)))),
               (''internal_mobility'', NumCol (map of_int (draw_mobility d)))])
            (\<lambda>data. Inr (new_frame data w))))"

section \<open>Risk banding (pipeline.py, \<open>_infer_risk_band\<close>)\<close>

text \<open>
  Scores are Python floats; they are modelled as real numbers, and the literals
  \<open>0.7\<close> and \<open>0.4\<close> of the source as the reals \<open>7/10\<close> and \<open>4/10\<close>.
\<close>

definition infer_risk_band :: "real \<Rightarrow> string" where
  "infer_risk_band score_value =
     (if score_value \<ge> 7/10 then ''High''
      else if score_value \<ge> 4/10 then ''Medium''
      else ''Low'')"

section \<open>Label synthesis (pipeline.py, \<open>_prepare_training_data\<close>)\<close>

definition TARGET_COLUMN :: string where
  "TARGET_COLUMN = ''exit_flag''"

text \<open>
  The expression bound to \<open>heuristic\<close>: four comparisons of whole columns, each cast to
  integers, added column-wise. Python evaluates the operands from left to right, so a
  missing or non-numeric column is reported in that order.
\<close>

definition heuristic :: "frame \<Rightarrow> error + int list" where
  "heuristic df =
     bnd (getitem df ''engagement_score'') (\<lambda>c1.
     bnd (col_lt c1 60) (\<lambda>b1.
     bnd (getitem df ''overtime_hours_month'') (\<lambda>c2.
     bnd (col_gt c2 12) (\<lambda>b2.
     bnd (getitem df ''absenteeism_days_month'') (\<lambda>c3.
     bnd (col_gt c3 3) (\<lambda>b3.
     bnd (getitem df ''last_promotion_months'') (\<lambda>c4.
     bnd (col_gt c4 36) (\<lambda>b4.
       Inr (add_cols (add_cols (add_cols (bools_astype_int b1) (bools_astype_int b2))
                       (bools_astype_int b3)) (bools_astype_int b4))))))))))"

definition prepare_training_data :: "ref \<Rightarrow> world \<Rightarrow> error + ref \<times> world" where
  "prepare_training_data df w =
     bnd (deref w df) (\<lambda>d.
       if TARGET_COLUMN \<in> set (columns d) then Inr (df, w)
       else
         bnd (heuristic d) (\<lambda>h.
           let (df', w') = new_frame d w;
               flags = bools_astype_int (map (\<lambda>x. x \<ge> 2) h)
           in bnd (setitem d TARGET_COLUMN (NumCol (map of_int flags))) (\<lambda>d'.
                Inr (df', store df' d' w'))))"

section \<open>The scikit-learn pipeline (model.py)\<close>

text \<open>
  \<open>_build_pipeline\<close> only configures scikit-learn objects; the configuration is a record.
\<close>

datatype unknown_policy = HandleError | HandleIgnore

record pipeline_config =
  num_features :: "string list"
  cat_features :: "string list"
  handle_unknown :: unknown_policy
  n_estimators :: nat
  max_depth :: nat
  random_state :: nat
  class_weight :: string

definition build_pipeline :: "string list \<Rightarrow> string list \<Rightarrow> pipeline_config" where
  "build_pipeline cat_fs num_fs =
     \<lparr>num_features = num_fs, cat_features = cat_fs, handle_unknown = HandleIgnore,
      n_estimators = 200, max_depth = 6, random_state = 42, class_weight = ''balanced''\<rparr>"

text \<open>
  Fitting and prediction are scikit-learn's and are parameters of the model: a fitted
  pipeline is a value of type \<open>'m\<close>, from which the library reads the fitted categories of
  the one-hot encoder and the importances of the forest. \<open>lib_py_int\<close> is Python's
  \<open>int\<close> on a string (\<open>None\<close> where it raises).
\<close>

record 'm library =
  lib_fit :: "pipeline_config \<Rightarrow> frame \<Rightarrow> int list \<Rightarrow> error + 'm"
  lib_predict_proba :: "'m \<Rightarrow> frame \<Rightarrow> error + real list list"
  lib_categories :: "'m \<Rightarrow> string list list"
  lib_feature_importances :: "'m \<Rightarrow> real list"
  lib_roc_auc_score :: "int list \<Rightarrow> real list \<Rightarrow> error + real"
  lib_py_int :: "string \<Rightarrow> int option"

record 'm ModelResult =
  model :: 'm
  auc :: real
  feature_importance :: "(string \<times> real) list"

text \<open>\<open>.astype(int)\<close> on a column: numbers are truncated towards zero, strings are parsed.\<close>

definition trunc :: "real \<Rightarrow> int" where
  "trunc x = (if x \<ge> 0 then \<lfloor>x\<rfloor> else \<lceil>x\<rceil>)"

fun parse_all :: "(string \<Rightarrow> int option) \<Rightarrow> string list \<Rightarrow> error + int list" where
  "parse_all f [] = Inr []"
| "parse_all f (x # xs) =
     (case f x of
        None \<Rightarrow> Inl (ValueError (''invalid literal for int() with base 10: '' @ x))
      | Some i \<Rightarrow> bnd (parse_all f xs) (\<lambda>is. Inr (i # is)))"

fun astype_int :: "(string \<Rightarrow> int option) \<Rightarrow> column \<Rightarrow> error + int list" where
  "astype_int f (NumCol xs) = Inr (map trunc xs)"
| "astype_int f (StrCol xs) = parse_all f xs"

text \<open>\<open>a[:, 1]\<close> on the rows of a matrix.\<close>

definition column1 :: "real list list \<Rightarrow> error + real list" where
  "column1 rows = (if list_all (\<lambda>r. 1 < length r) rows then Inr (map (\<lambda>r. r ! 1) rows) else Inl IndexError)"

text \<open>
  Modelled from the spec: \<open>OneHotEncoder.get_feature_names_out\<close> of scikit-learn, which is
  not part of the repository. Each fitted level of each categorical field gives one
  encoded column, named by the field, an underscore and the level, fields in the order
  given and levels in fitted order.
\<close>

definition get_feature_names_out :: "string list list \<Rightarrow> string list \<Rightarrow> error + string list" where
  "get_feature_names_out categories input_features =
     (if length input_features \<noteq> length categories
      then Inl (LibraryError ''input_features should have length equal to number of features'')
      else Inr (concat (map2 (\<lambda>f cs. map (\<lambda>c. f @ ''_'' @ c) cs) input_features categories)))"

text \<open>
  \<open>sorted(pairs, key=lambda x: x[1], reverse=True)\<close>: a stable sort into descending
  order of the second component (with \<open>reverse=True\<close> Python keeps equal elements in
  their original order).
\<close>

definition sorted_desc :: "(string \<times> real) list \<Rightarrow> (string \<times> real) list" where
  "sorted_desc pairs = sort_key (\<lambda>x. - snd x) pairs"

text \<open>
  A dictionary keeps its keys in insertion order; storing under a key that is present
  replaces the value where the key stands.
\<close>

fun dict_set :: "'k \<Rightarrow> 'v \<Rightarrow> ('k \<times> 'v) list \<Rightarrow> ('k \<times> 'v) list" where
  "dict_set k v [] = [(k, v)]"
| "dict_set k v ((k', v') # rest) =
     (if k' = k then (k', v) # rest else (k', v') # dict_set k v rest)"

definition dict_of :: "('k \<times> 'v) list \<Rightarrow> ('k \<times> 'v) list" where
  "dict_of pairs = foldl (\<lambda>d (k, v). dict_set k v d) [] pairs"

definition extract_feature_importance ::
  "'m library \<Rightarrow> 'm \<Rightarrow> string list \<Rightarrow> string list \<Rightarrow> error + (string \<times> real) list" where
  "extract_feature_importance lib pipeline cat_fs num_fs =
     bnd (get_feature_names_out (lib_categories lib pipeline) cat_fs) (\<lambda>cat_names.
       let feature_names = num_fs @ cat_names;
           importances = lib_feature_importances lib pipeline;
           pairs = sorted_desc (zip feature_names importances)
       in Inr (dict_of (take 8 pairs)))"

definition train_model :: "'m library \<Rightarrow> ref \<Rightarrow> world \<Rightarrow> error + 'm ModelResult \<times> world" where
  "train_model lib df w =
     bnd (deref w df) (\<lambda>d.
       if TARGET_COLUMN \<notin> set (columns d)
       then Inl (ValueError ''Training data must include exit_flag column.'')
       else
         let features = filter (\<lambda>col. col \<in> set (columns d)) REQUIRED_COLUMNS;
             cat_fs = [''dept'', ''salary_band''];
             num_fs = filter (\<lambda>col. col \<notin> set cat_fs \<and> col \<noteq> ''employee_id'') features
         in bnd (select d features) (\<lambda>xd.
            let (x, w') = new_frame xd w
            in bnd (getitem d TARGET_COLUMN) (\<lambda>yc.
               bnd (astype_int (lib_py_int lib) yc) (\<lambda>y.
               bnd (lib_fit lib (build_pipeline cat_fs num_fs) xd y) (\<lambda>pipeline.
               bnd (lib_predict_proba lib pipeline xd) (\<lambda>pm.
               bnd (column1 pm) (\<lambda>proba.
               bnd (lib_roc_auc_score lib y proba) (\<lambda>a.
               bnd (extract_feature_importance lib pipeline cat_fs num_fs) (\<lambda>fi.
                 Inr (\<lparr>model = pipeline, auc = a, feature_importance = fi\<rparr>, w'))))))))))"

definition score :: "'m library \<Rightarrow> 'm \<Rightarrow> ref \<Rightarrow> world \<Rightarrow> error + real list \<times> world" where
  "score lib m df w =
     bnd (deref w df) (\<lambda>d.
       let features = filter (\<lambda>col. col \<in> set (columns d)) REQUIRED_COLUMNS
       in bnd (select d features) (\<lambda>xd.
          let (x, w') = new_frame xd w
          in bnd (lib_predict_proba lib m xd) (\<lambda>pm.
             bnd (column1 pm) (\<lambda>proba. Inr (proba, w')))))"

section \<open>One-hot encoding of categorical fields\<close>

text \<open>
  Modelled from the spec: \<open>OneHotEncoder.fit\<close> and \<open>OneHotEncoder.transform\<close> of
  scikit-learn, which are not part of the repository. \<open>fit\<close> records, for each categorical
  field, the distinct levels observed (scikit-learn keeps them sorted). \<open>transform\<close> expands
  each field of a record into one indicator per fitted level, in fitted order. A level that
  was not seen during \<open>fit\<close> raises under \<open>handle_unknown="error"\<close> and gives all-zero
  indicators under \<open>handle_unknown="ignore"\<close>, the setting \<open>_build_pipeline\<close> chooses.
  The argument of \<open>fit\<close> is the list of categorical columns, one list of levels per field;
  a record is the list of its levels, one per field.
\<close>

definition ohe_fit :: "string list list \<Rightarrow> string list list" where
  "ohe_fit cat_columns = map (\<lambda>c. sort (remdups c)) cat_columns"

definition ohe_encode_level :: "unknown_policy \<Rightarrow> string list \<Rightarrow> string \<Rightarrow> error + real list" where
  "ohe_encode_level policy levels v =
     (if v \<in> set levels then Inr (map (\<lambda>l. if l = v then 1 else 0) levels)
      else case policy of
             HandleError \<Rightarrow> Inl (ValueError (''Found unknown categories: '' @ v))
           | HandleIgnore \<Rightarrow> Inr (replicate (length levels) 0))"

fun ohe_encode_record :: "unknown_policy \<Rightarrow> string list list \<Rightarrow> string list \<Rightarrow> error + real list list" where
  "ohe_encode_record policy [] [] = Inr []"
| "ohe_encode_record policy (levels # ls) (v # vs) =
     bnd (ohe_encode_level policy levels v) (\<lambda>block.
     bnd (ohe_encode_record policy ls vs) (\<lambda>blocks. Inr (block # blocks)))"
| "ohe_encode_record policy _ _ = Inl (ValueError ''X has a different number of features than the fitted encoder'')"

fun ohe_transform :: "unknown_policy \<Rightarrow> string list list \<Rightarrow> string list list \<Rightarrow> error + real list list" where
  "ohe_transform policy categories [] = Inr []"
| "ohe_transform policy categories (r # rs) =
     bnd (ohe_encode_record policy categories r) (\<lambda>blocks.
     bnd (ohe_transform policy categories rs) (\<lambda>rows. Inr (concat blocks # rows)))"

section \<open>Top driver and the pipeline (pipeline.py)\<close>

text \<open>
  \<open>s.replace(old, new)\<close>: the occurrences of \<open>old\<close> are found from left to right without
  overlap; an empty \<open>old\<close> matches before every character and at the end.
\<close>

function replace_nonempty :: "string \<Rightarrow> string \<Rightarrow> string \<Rightarrow> string" where
  "replace_nonempty old new [] = []"
| "replace_nonempty old new (c # cs) =
     (if old \<noteq> [] \<and> prefix old (c # cs)
      then new @ replace_nonempty old new (drop (length old) (c # cs))
      else c # replace_nonempty old new cs)"
  by pat_completeness auto
termination
  by (relation "measure (\<lambda>(old, new, s). length s)") auto

definition str_replace :: "string \<Rightarrow> string \<Rightarrow> string \<Rightarrow> string" where
  "str_replace s old new =
     (if old = [] then new @ concat (map (\<lambda>c. c # new) s) else replace_nonempty old new s)"

text \<open>
  \<open>max(d, key=d.get)\<close> walks the keys of the dictionary in order and keeps the first one
  whose value is greatest: a later key replaces the current one only with a strictly
  greater value.
\<close>

fun max_from :: "(string \<times> real) \<Rightarrow> (string \<times> real) list \<Rightarrow> (string \<times> real)" where
  "max_from best [] = best"
| "max_from best (x # xs) = max_from (if snd x > snd best then x else best) xs"

definition top_driver_summary :: "(string \<times> real) list \<Rightarrow> string" where
  "top_driver_summary importances =
     (case importances of
        [] \<Rightarrow> ''insufficient data''
      | first # rest \<Rightarrow>
          let top = fst (max_from first rest)
          in str_replace (str_replace top ''cat__'' []) ''num__'' [])"

definition output_columns :: "string list" where
  "output_columns =
     [''employee_id'', ''dept'', ''tenure_months'', ''last_promotion_months'',
      ''engagement_score'', ''overtime_hours_month'', ''absenteeism_days_month'',
      ''performance_score'', ''peer_turnover_rate'', ''internal_mobility'']"

text \<open>\<open>column.apply(_infer_risk_band)\<close>\<close>

fun apply_infer_risk_band :: "column \<Rightarrow> error + string list" where
  "apply_infer_risk_band (NumCol xs) = Inr (map infer_risk_band xs)"
| "apply_infer_risk_band (StrCol xs) = (if xs = [] then Inr [] else Inl TypeError)"

text \<open>
  Lines 68 to 85 of \<open>run_pipeline\<close>: the output frame is a copy of ten columns of the
  input, to which the three result columns are assigned, and which is then written.
\<close>

definition write_output ::
  "ref \<Rightarrow> real list \<Rightarrow> (string \<times> real) list \<Rightarrow> string \<Rightarrow> world \<Rightarrow> error + world" where
  "write_output df risk_scores importances output_path w =
     bnd (deref w df) (\<lambda>d.
     bnd (select d output_columns) (\<lambda>od.
       let (output, w') = new_frame od w
       in bnd (setitem od ''risk_score'' (NumCol (map (np_round 3) risk_scores))) (\<lambda>o1.
          bnd (getitem o1 ''risk_score'') (\<lambda>rs.
          bnd (apply_infer_risk_band rs) (\<lambda>bands.
          bnd (setitem o1 ''risk_band'' (StrCol bands)) (\<lambda>o2.
          bnd (setitem o2 ''top_driver''
                 (StrCol (replicate (nrows o2) (top_driver_summary importances)))) (\<lambda>o3.
            Inr (to_csv o3 output_path (store output o3 w')))))))))"

text \<open>Lines 57 to 62 of \<open>run_pipeline\<close>: where the input frame comes from.\<close>

definition load_input ::
  "(int \<Rightarrow> int \<Rightarrow> error + sample_draws) \<Rightarrow> string option \<Rightarrow> bool \<Rightarrow> int \<Rightarrow> world \<Rightarrow> error + ref \<times> world" where
  "load_input rng input_path generate_sample_flag rows w =
     (if generate_sample_flag
      then generate_sample rng (Some \<lparr>cfg_rows = rows, cfg_seed = 42\<rparr>) w
      else case input_path of
             Some path \<Rightarrow> load_csv path w
           | None \<Rightarrow> Inl (ValueError ''Provide --input or --generate-sample.''))"

definition run_pipeline ::
  "'m library \<Rightarrow> (int \<Rightarrow> int \<Rightarrow> error + sample_draws) \<Rightarrow>
   string option \<Rightarrow> string \<Rightarrow> bool \<Rightarrow> int \<Rightarrow> world \<Rightarrow> error + 'm ModelResult \<times> world" where
  "run_pipeline lib rng input_path output_path generate_sample_flag rows w =
     bnd (load_input rng input_path generate_sample_flag rows w) (\<lambda>(df, w1).
     bnd (prepare_training_data df w1) (\<lambda>(training_df, w2).
     bnd (train_model lib training_df w2) (\<lambda>(result, w3).
     bnd (score lib (model result) df w3) (\<lambda>(risk_scores, w4).
     bnd (write_output df risk_scores (feature_importance result) output_path w4) (\<lambda>w5.
       Inr (result, w5))))))"

section \<open>The label of one record, as the specification words it\<close>

text \<open>
  The four signals of one record, and the label the specification describes: a counter
  that is incremented once for each signal that fires, and the label 1 from two signals
  on. The source computes whole columns (\<open>heuristic\<close> above); the two are compared below.
\<close>

record signals =
  sig_engagement :: real
  sig_overtime :: real
  sig_absenteeism :: real
  sig_promotion :: real

definition signal_counter :: "signals \<Rightarrow> nat" where
  "signal_counter s =
     (let c = 0;
          c = (if sig_engagement s < 60 then c + 1 else c);
          c = (if sig_overtime s > 12 then c + 1 else c);
          c = (if sig_absenteeism s > 3 then c + 1 else c);
          c = (if sig_promotion s > 36 then c + 1 else c)
      in c)"

definition synthesize_label :: "signals \<Rightarrow> int" where
  "synthesize_label s = (if signal_counter s \<ge> 2 then 1 else 0)"

section \<open>A concrete library for evaluation\<close>

text \<open>
  A stand-in for scikit-learn on which the pipeline can be run on concrete inputs. The
  fitted pipeline is the pair of the encoder's categories, fitted with \<open>ohe_fit\<close> on the
  categorical columns of the training frame, and the importances; the importances and the
  predicted probabilities are given from outside.
\<close>

definition cat_column :: "frame \<Rightarrow> string \<Rightarrow> string list" where
  "cat_column df name = (case map_of (cols df) name of Some (StrCol xs) \<Rightarrow> xs | _ \<Rightarrow> [])"

definition stub_library :: "real list \<Rightarrow> real list \<Rightarrow> (string list list \<times> real list) library" where
  "stub_library importances probabilities =
     \<lparr>lib_fit = (\<lambda>cfg x y. Inr (ohe_fit (map (cat_column x) (cat_features cfg)), importances)),
      lib_predict_proba = (\<lambda>m x. Inr (map (\<lambda>p. [1 - p, p]) probabilities)),
      lib_categories = fst,
      lib_feature_importances = snd,
      lib_roc_auc_score = (\<lambda>y p. Inr (1/2)),
      lib_py_int = (\<lambda>s. None)\<rparr>"

definition no_rng :: "int \<Rightarrow> int \<Rightarrow> error + sample_draws" where
  "no_rng seed rows = Inl (LibraryError ''no generator'')"

definition example_frame :: frame where
  "example_frame =
     \<lparr>nrows = 2,
      cols = [(''employee_id'', StrCol [''E1000'', ''E1001'']),
              (''dept'', StrCol [''Sales'', ''HR'']),
              (''tenure_months'', NumCol [40, 12]),
              (''last_promotion_months'', NumCol [10, 10]),
              (''salary_band'', StrCol [''A'', ''B'']),
              (''manager_span'', NumCol [5, 7]),
              (''overtime_hours_month'', NumCol [15, 5]),
              (''engagement_score'', NumCol [50, 80]),
              (''absenteeism_days_month'', NumCol [1, 1]),
              (''peer_turnover_rate'', NumCol [1/10, 2/10]),
              (''performance_score'', NumCol [70, 75]),
              (''internal_mobility'', NumCol [0, 1])]\<rparr>"

definition example_world :: world where
  "example_world =
     \<lparr>heap = (\<lambda>r. None), next_ref = 0, files = (\<lambda>p. None)(''in.csv'' \<mapsto> example_frame)\<rparr>"

definition example_library :: "(string list list \<times> real list) library" where
  "example_library = stub_library [1/10, 0, 0, 0, 0, 0, 0, 0, 0, 3/10, 0, 2/10, 4/10] [6995/10000, 3/10]"

text \<open>
  A second input, whose first department is named \<open>cat__ops\<close>, and importances that make
  the encoded column of that department the heaviest.
\<close>

definition example_world_prefixed :: world where
  "example_world_prefixed =
     \<lparr>heap = (\<lambda>r. None), next_ref = 0,
      files = (\<lambda>p. None)(''in.csv'' \<mapsto>
        \<lparr>nrows = 2,
         cols = dict_set ''dept'' (StrCol [''cat__ops'', ''HR'']) (cols example_frame)\<rparr>)\<rparr>"

definition example_library_prefixed :: "(string list list \<times> real list) library" where
  "example_library_prefixed =
     stub_library [0, 0, 0, 0, 0, 0, 0, 0, 0, 1/10, 9/10, 0, 0] [6995/10000, 3/10]"

section \<open>The encoded columns\<close>

text \<open>
  The names of the encoded columns of a model trained on a frame, in their order: the
  numeric fields the frame has, in declared order, followed by one column per fitted level
  of the department and of the salary band, in fitted order.
\<close>

definition encoded_columns :: "frame \<Rightarrow> string list list \<Rightarrow> string list" where
  "encoded_columns d categories =
     filter (\<lambda>col. col \<notin> set [''dept'', ''salary_band''] \<and> col \<noteq> ''employee_id'')
       (filter (\<lambda>col. col \<in> set (columns d)) REQUIRED_COLUMNS)
     @ concat (map2 (\<lambda>f cs. map (\<lambda>c. f @ ''_'' @ c) cs) [''dept'', ''salary_band''] categories)"

text \<open>\<open>pairs[:8]\<close> of the sorted pairs of names and importances.\<close>

definition top_pairs :: "string list \<Rightarrow> real list \<Rightarrow> (string \<times> real) list" where
  "top_pairs names importances = take 8 (sorted_desc (zip names importances))"

section \<open>Worlds that only grow\<close>

text \<open>
  \<open>grows w w'\<close>: every frame allocated in \<open>w\<close> is the same in \<open>w'\<close>, and \<open>w'\<close> has
  allocated at least as much.
\<close>

definition grows :: "world \<Rightarrow> world \<Rightarrow> bool" where
  "grows w w' \<longleftrightarrow> next_ref w \<le> next_ref w' \<and> (\<forall>r < next_ref w. heap w' r = heap w r)"

section \<open>Basic facts about results, frames and rounding\<close>

lemma bnd_Inr_iff: "bnd m f = Inr y \<longleftrightarrow> (\<exists>x. m = Inr x \<and> f x = Inr y)"
  by (cases m) (simp_all add: bnd_def)

lemma bnd_prod_Inr_iff:
  "bnd m (\<lambda>(a, b). f a b) = Inr y \<longleftrightarrow> (\<exists>a b. m = Inr (a, b) \<and> f a b = Inr y)"
  by (cases m) (auto simp: bnd_def)

lemma bnd_Inl: "bnd (Inl e) f = Inl e"
  by (simp add: bnd_def)

lemma bnd_Inr: "bnd (Inr x) f = f x"
  by (simp add: bnd_def)

lemma map_of_dict_set_same: "map_of (dict_set k v d) k = Some v"
  by (induction d) auto

lemma map_of_dict_set_other: "k' \<noteq> k \<Longrightarrow> map_of (dict_set k v d) k' = map_of d k'"
  by (induction d) auto

lemma map_of_assign_col_same: "map_of (assign_col k v d) k = Some v"
  by (induction d) auto

lemma map_of_assign_col_other: "k' \<noteq> k \<Longrightarrow> map_of (assign_col k v d) k' = map_of d k'"
  by (induction d) auto

lemma setitem_Inr:
  assumes "setitem df name c = Inr df'"
  shows "nrows df' = nrows df" and "getitem df' name = Inr c"
    and "name' \<noteq> name \<Longrightarrow> getitem df' name' = getitem df name'"
    and "col_len c = nrows df"
  using assms
  by (auto simp: setitem_def getitem_def map_of_assign_col_same map_of_assign_col_other split: if_splits)

lemma rint_of_int: "rint (of_int n) = n"
  by (simp add: rint_def)

lemma rint_cases: "rint x = \<lfloor>x\<rfloor> \<or> rint x = \<lfloor>x\<rfloor> + 1"
  by (simp add: rint_def Let_def)

lemma rint_mono:
  assumes "x \<le> y"
  shows "rint x \<le> rint y"
proof (cases "\<lfloor>x\<rfloor> < \<lfloor>y\<rfloor>")
  case True
  have "rint x \<le> \<lfloor>x\<rfloor> + 1" using rint_cases[of x] by auto
  also have "\<dots> \<le> \<lfloor>y\<rfloor>" using True by simp
  also have "\<dots> \<le> rint y" using rint_cases[of y] by auto
  finally show ?thesis .
next
  case False
  with assms have f: "\<lfloor>x\<rfloor> = \<lfloor>y\<rfloor>"
    using floor_mono[of x y] by simp
  then have "x - of_int \<lfloor>x\<rfloor> \<le> y - of_int \<lfloor>y\<rfloor>"
    using assms by simp
  then show ?thesis
    unfolding rint_def Let_def f by auto
qed

lemma pow2_neg: "k < 0 \<Longrightarrow> pow2 k = 1 / 2 ^ nat (- k)"
  by (simp add: pow2_def)

lemma pow2_pos: "0 < pow2 k"
  by (simp add: pow2_def)

lemma fl_in_binade:
  assumes "binade x = e" and "- 1022 \<le> e" and "x \<noteq> 0"
  shows "fl x = of_int (rint (x / pow2 (e - 52))) * pow2 (e - 52)"
  using assms by (simp add: fl_def Let_def max_def)

lemma fl_bounds:
  assumes "binade x = e" and "- 1022 \<le> e" and "x \<noteq> 0"
    and "lo \<le> x" and "x \<le> hi"
  shows "of_int (rint (lo / pow2 (e - 52))) * pow2 (e - 52) \<le> fl x"
    and "fl x \<le> of_int (rint (hi / pow2 (e - 52))) * pow2 (e - 52)"
proof -
  let ?q = "pow2 (e - 52)"
  have q: "0 < ?q" by (rule pow2_pos)
  have "lo / ?q \<le> x / ?q" using assms(4) q by (simp add: divide_right_mono)
  then have "rint (lo / ?q) \<le> rint (x / ?q)" by (rule rint_mono)
  then show "of_int (rint (lo / ?q)) * ?q \<le> fl x"
    unfolding fl_in_binade[OF assms(1-3)] using q by simp
  have "x / ?q \<le> hi / ?q" using assms(5) q by (simp add: divide_right_mono)
  then have "rint (x / ?q) \<le> rint (hi / ?q)" by (rule rint_mono)
  then show "fl x \<le> of_int (rint (hi / ?q)) * ?q"
    unfolding fl_in_binade[OF assms(1-3)] using q by simp
qed

lemma bitlen_small: "bitlen 1 = 1" "bitlen 2 = 2" "bitlen 3 = 2"
  by code_simp+

lemma bitlen_hundreds: "bitlen 399 = 9" "bitlen 400 = 9" "bitlen 699 = 10" "bitlen 700 = 10"
  by code_simp+

lemma binade_below_one:
  assumes "1/2 \<le> x" "x < 1"
  shows "binade x = - 1"
proof -
  have "1 < 1 / x" "1 / x \<le> 2" using assms by (simp_all add: field_simps)
  then have "\<lceil>1 / x\<rceil> = 2" by (simp add: ceiling_eq_iff)
  then show ?thesis using assms by (simp add: binade_def bitlen_small)
qed

lemma binade_below_half:
  assumes "1/4 \<le> x" "x < 1/2"
  shows "binade x = - 2"
proof -
  have r: "2 < 1 / x" "1 / x \<le> 4" using assms by (simp_all add: field_simps)
  have "2 < \<lceil>1 / x\<rceil>" using r(1) by (simp add: less_ceiling_iff)
  moreover have "\<lceil>1 / x\<rceil> \<le> 4" using r(2) by (simp add: ceiling_le_iff)
  ultimately have "\<lceil>1 / x\<rceil> = 3 \<or> \<lceil>1 / x\<rceil> = 4" by linarith
  then show ?thesis using assms by (auto simp add: binade_def bitlen_small)
qed

lemma binade_near_400:
  assumes "399 \<le> y" "y < 401"
  shows "binade y = 8"
proof -
  have "399 \<le> \<lfloor>y\<rfloor>" using assms(1) by (simp add: le_floor_iff)
  moreover have "\<lfloor>y\<rfloor> < 401" using assms(2) by (simp add: floor_less_iff)
  ultimately have "\<lfloor>y\<rfloor> = 399 \<or> \<lfloor>y\<rfloor> = 400" by linarith
  then show ?thesis using assms(1) by (auto simp add: binade_def bitlen_hundreds)
qed

lemma binade_near_700:
  assumes "699 \<le> y" "y < 701"
  shows "binade y = 9"
proof -
  have "699 \<le> \<lfloor>y\<rfloor>" using assms(1) by (simp add: le_floor_iff)
  moreover have "\<lfloor>y\<rfloor> < 701" using assms(2) by (simp add: floor_less_iff)
  ultimately have "\<lfloor>y\<rfloor> = 699 \<or> \<lfloor>y\<rfloor> = 700" by linarith
  then show ?thesis using assms(1) by (auto simp add: binade_def bitlen_hundreds)
qed

lemma double_facts_high:
  "6995/10000 \<le> of_int (rint ((6995/10000) / pow2 (- 1 - 52))) * pow2 (- 1 - 52)"
  "of_int (rint ((7/10) / pow2 (- 1 - 52))) * pow2 (- 1 - 52) \<le> 7/10"
  "of_int (rint ((1399/2) / pow2 (9 - 52))) * pow2 (9 - 52) = 1399/2"
  "of_int (rint (700 / pow2 (9 - 52))) * pow2 (9 - 52) = 700"
  "rint (1399/2) = 700" "rint 700 = 700"
  by code_simp+

lemma double_facts_medium:
  "3995/10000 \<le> of_int (rint ((3995/10000) / pow2 (- 2 - 52))) * pow2 (- 2 - 52)"
  "of_int (rint ((4/10) / pow2 (- 2 - 52))) * pow2 (- 2 - 52) * 1000 < 401"
  "of_int (rint ((799/2) / pow2 (8 - 52))) * pow2 (8 - 52) = 799/2"
  "of_int (rint ((of_int (rint ((4/10) / pow2 (- 2 - 52))) * pow2 (- 2 - 52) * 1000) / pow2 (8 - 52)))
     * pow2 (8 - 52) = 400"
  "rint (799/2) = 400" "rint 400 = 400"
  by code_simp+

lemma round3_just_below_high:
  assumes "6995/10000 \<le> p" "p < 7/10"
  shows "np_round 3 p = 7/10"
proof -
  have b1: "binade p = - 1" using assms by (intro binade_below_one) simp_all
  have p0: "p \<noteq> 0" using assms by simp
  have lo: "6995/10000 \<le> fl p"
    using fl_bounds(1)[OF b1 _ p0 assms(1) order.refl] double_facts_high(1) by simp
  have hi: "fl p \<le> 7/10"
    using fl_bounds(2)[OF b1 _ p0 order.refl less_imp_le[OF assms(2)]] double_facts_high(2) by simp
  let ?y = "fl p * 10 ^ 3"
  have y: "1399/2 \<le> ?y" "?y \<le> 700" using lo hi by simp_all
  have b2: "binade ?y = 9"
    using y by (intro binade_near_700) simp_all
  have y0: "?y \<noteq> 0" using y by simp
  have "1399/2 \<le> fl ?y"
    using fl_bounds(1)[OF b2 _ y0 y(1) order.refl] double_facts_high(3) by simp
  then have "rint (1399/2) \<le> rint (fl ?y)" by (rule rint_mono)
  moreover have "fl ?y \<le> 700"
    using fl_bounds(2)[OF b2 _ y0 order.refl y(2)] double_facts_high(4) by simp
  then have "rint (fl ?y) \<le> rint 700" by (rule rint_mono)
  ultimately have "rint (fl ?y) = 700"
    unfolding double_facts_high(5,6) by simp
  then show ?thesis by (simp add: np_round_def)
qed

lemma round3_just_below_medium:
  assumes "3995/10000 \<le> p" "p < 4/10"
  shows "np_round 3 p = 4/10"
proof -
  let ?u = "of_int (rint ((4/10) / pow2 (- 2 - 52))) * pow2 (- 2 - 52) :: real"
  have b1: "binade p = - 2" using assms by (intro binade_below_half) simp_all
  have p0: "p \<noteq> 0" using assms by simp
  have lo: "3995/10000 \<le> fl p"
    using fl_bounds(1)[OF b1 _ p0 assms(1) order.refl] double_facts_medium(1) by simp
  have hi: "fl p \<le> ?u"
    using fl_bounds(2)[OF b1 _ p0 order.refl less_imp_le[OF assms(2)]] by simp
  let ?y = "fl p * 10 ^ 3"
  have y: "799/2 \<le> ?y" "?y \<le> ?u * 1000" using lo hi by simp_all
  have y401: "?y < 401" using y(2) double_facts_medium(2) by linarith
  have b2: "binade ?y = 8"
    using y(1) y401 by (intro binade_near_400) simp_all
  have y0: "?y \<noteq> 0" using y by simp
  have "799/2 \<le> fl ?y"
    using fl_bounds(1)[OF b2 _ y0 y(1) order.refl] double_facts_medium(3) by simp
  then have "rint (799/2) \<le> rint (fl ?y)" by (rule rint_mono)
  moreover have "fl ?y \<le> 400"
    using fl_bounds(2)[OF b2 _ y0 order.refl y(2)] double_facts_medium(4) by simp
  then have "rint (fl ?y) \<le> rint 400" by (rule rint_mono)
  ultimately have "rint (fl ?y) = 400"
    unfolding double_facts_medium(5,6) by simp
  then show ?thesis by (simp add: np_round_def)
qed

lemma round3_examples:
  "np_round 3 (6995/10000) = 7/10" "np_round 3 (3/10) = 3/10"
  "np_round 3 (5015/10000) = 501/1000" "np_round 3 (25/10000) = 2/1000"
  by code_simp+

lemma write_output_columns:
  assumes "write_output df risk_scores importances output_path w = Inr w'"
  shows "\<exists>out. files w' output_path = Some out
           \<and> getitem out ''risk_score'' = Inr (NumCol (map (np_round 3) risk_scores))
           \<and> getitem out ''risk_band'' = Inr (StrCol (map infer_risk_band (map (np_round 3) risk_scores)))
           \<and> getitem out ''top_driver'' = Inr (StrCol (replicate (nrows out) (top_driver_summary importances)))"
proof -
  from assms obtain d od o1 rs bands o2 o3 where
    s1: "setitem od ''risk_score'' (NumCol (map (np_round 3) risk_scores)) = Inr o1"
    and g: "getitem o1 ''risk_score'' = Inr rs"
    and a: "apply_infer_risk_band rs = Inr bands"
    and s2: "setitem o1 ''risk_band'' (StrCol bands) = Inr o2"
    and s3: "setitem o2 ''top_driver'' (StrCol (replicate (nrows o2) (top_driver_summary importances))) = Inr o3"
    and w': "w' = to_csv o3 output_path (store (fst (new_frame od w)) o3 (snd (new_frame od w)))"
    unfolding write_output_def bnd_Inr_iff Let_def case_prod_beta by auto
  have rs: "rs = NumCol (map (np_round 3) risk_scores)"
    using setitem_Inr(2)[OF s1] g by simp
  have bands: "bands = map infer_risk_band (map (np_round 3) risk_scores)"
    using a rs by simp
  have n32: "nrows o3 = nrows o2" using setitem_Inr(1)[OF s3] .
  have "files w' output_path = Some o3"
    by (simp add: w' to_csv_def)
  moreover have "getitem o3 ''risk_score'' = Inr (NumCol (map (np_round 3) risk_scores))"
    using setitem_Inr(3)[OF s3, of "''risk_score''"] setitem_Inr(3)[OF s2, of "''risk_score''"] g rs by simp
  moreover have "getitem o3 ''risk_band'' = Inr (StrCol (map infer_risk_band (map (np_round 3) risk_scores)))"
    using setitem_Inr(3)[OF s3, of "''risk_band''"] setitem_Inr(2)[OF s2] bands by simp
  moreover have "getitem o3 ''top_driver'' = Inr (StrCol (replicate (nrows o3) (top_driver_summary importances)))"
    using setitem_Inr(2)[OF s3] n32 by simp
  ultimately show ?thesis by blast
qed

lemma run_pipeline_Inr:
  assumes "run_pipeline lib rng input_path output_path flag rows w = Inr (res, w')"
  obtains df w1 training_df w2 w3 risk_scores w4 where
    "load_input rng input_path flag rows w = Inr (df, w1)"
    "prepare_training_data df w1 = Inr (training_df, w2)"
    "train_model lib training_df w2 = Inr (res, w3)"
    "score lib (model res) df w3 = Inr (risk_scores, w4)"
    "write_output df risk_scores (feature_importance res) output_path w4 = Inr w'"
proof -
  from assms obtain df w1 where
    1: "load_input rng input_path flag rows w = Inr (df, w1)" and
    r1: "bnd (prepare_training_data df w1) (\<lambda>(training_df, w2).
         bnd (train_model lib training_df w2) (\<lambda>(result, w3).
         bnd (score lib (model result) df w3) (\<lambda>(risk_scores, w4).
         bnd (write_output df risk_scores (feature_importance result) output_path w4) (\<lambda>w5.
           Inr (result, w5))))) = Inr (res, w')"
    unfolding run_pipeline_def bnd_prod_Inr_iff by blast
  from r1 obtain training_df w2 where
    2: "prepare_training_data df w1 = Inr (training_df, w2)" and
    r2: "bnd (train_model lib training_df w2) (\<lambda>(result, w3).
         bnd (score lib (model result) df w3) (\<lambda>(risk_scores, w4).
         bnd (write_output df risk_scores (feature_importance result) output_path w4) (\<lambda>w5.
           Inr (result, w5)))) = Inr (res, w')"
    unfolding bnd_prod_Inr_iff by blast
  from r2 obtain result w3 where
    3: "train_model lib training_df w2 = Inr (result, w3)" and
    r3: "bnd (score lib (model result) df w3) (\<lambda>(risk_scores, w4).
         bnd (write_output df risk_scores (feature_importance result) output_path w4) (\<lambda>w5.
           Inr (result, w5))) = Inr (res, w')"
    unfolding bnd_prod_Inr_iff by blast
  from r3 obtain risk_scores w4 where
    4: "score lib (model result) df w3 = Inr (risk_scores, w4)" and
    r4: "bnd (write_output df risk_scores (feature_importance result) output_path w4) (\<lambda>w5.
           Inr (result, w5)) = Inr (res, w')"
    unfolding bnd_prod_Inr_iff by blast
  from r4 have 5: "write_output df risk_scores (feature_importance result) output_path w4 = Inr w'"
    and "result = res"
    unfolding bnd_Inr_iff by auto
  with 1 2 3 4 that show thesis by blast
qed

lemma example_run_succeeds:
  "\<not> isl (run_pipeline example_library no_rng (Some ''in.csv'') ''out.csv'' False 0 example_world)"
  by code_simp

section \<open>Risk bands\<close>

text \<open>
  Claim C1. For every score, the band is High exactly from 0.7 on, Medium exactly from 0.4
  up to but not including 0.7, and Low exactly below 0.4; the four boundary cases of the
  specification are instances.
\<close>

theorem risk_band_thresholds:
  "(infer_risk_band s = ''High'' \<longleftrightarrow> s \<ge> 7/10)
   \<and> (infer_risk_band s = ''Medium'' \<longleftrightarrow> 4/10 \<le> s \<and> s < 7/10)
   \<and> (infer_risk_band s = ''Low'' \<longleftrightarrow> s < 4/10)
   \<and> infer_risk_band (7/10) = ''High''
   \<and> infer_risk_band (6999/10000) = ''Medium''
   \<and> infer_risk_band (4/10) = ''Medium''
   \<and> infer_risk_band (3999/10000) = ''Low''"
  by (simp add: infer_risk_band_def)

text \<open>
  Claim C10. In a run that succeeds, the scores are those of the fitted model of that run on
  the input frame of that run; the risk score written for a record is its score rounded to
  three decimals, and the band written is the band of the rounded value. A probability
  from 0.6995 up to 0.7 is so written as High and one from 0.3995 up to 0.4 as Medium, where
  the band of the probability itself is the lower one.
\<close>

theorem band_of_rounded_score:
  assumes "run_pipeline lib rng input_path output_path flag rows w = Inr (res, w')"
  shows "\<exists>df w1 training_df w2 w3 raw w4 out.
           load_input rng input_path flag rows w = Inr (df, w1)
         \<and> prepare_training_data df w1 = Inr (training_df, w2)
         \<and> train_model lib training_df w2 = Inr (res, w3)
         \<and> score lib (model res) df w3 = Inr (raw, w4)
         \<and> files w' output_path = Some out
         \<and> getitem out ''risk_score'' = Inr (NumCol (map (np_round 3) raw))
         \<and> getitem out ''risk_band'' = Inr (StrCol (map (\<lambda>p. infer_risk_band (np_round 3 p)) raw))
         \<and> (\<forall>p. 6995/10000 \<le> p \<and> p < 7/10 \<longrightarrow>
                infer_risk_band (np_round 3 p) = ''High'' \<and> infer_risk_band p = ''Medium'')
         \<and> (\<forall>p. 3995/10000 \<le> p \<and> p < 4/10 \<longrightarrow>
                infer_risk_band (np_round 3 p) = ''Medium'' \<and> infer_risk_band p = ''Low'')"
proof -
  from assms obtain df w1 training_df w2 w3 raw w4 where
    li: "load_input rng input_path flag rows w = Inr (df, w1)" and
    pr: "prepare_training_data df w1 = Inr (training_df, w2)" and
    tr: "train_model lib training_df w2 = Inr (res, w3)" and
    sc: "score lib (model res) df w3 = Inr (raw, w4)" and
    wo: "write_output df raw (feature_importance res) output_path w4 = Inr w'"
    by (rule run_pipeline_Inr)
  from write_output_columns[OF wo] obtain out where
    out: "files w' output_path = Some out"
      "getitem out ''risk_score'' = Inr (NumCol (map (np_round 3) raw))"
      "getitem out ''risk_band'' = Inr (StrCol (map infer_risk_band (map (np_round 3) raw)))"
    by blast
  have hi: "infer_risk_band (np_round 3 p) = ''High'' \<and> infer_risk_band p = ''Medium''"
    if "6995/10000 \<le> p \<and> p < 7/10" for p
    using that round3_just_below_high[of p] by (simp add: infer_risk_band_def)
  have med: "infer_risk_band (np_round 3 p) = ''Medium'' \<and> infer_risk_band p = ''Low''"
    if "3995/10000 \<le> p \<and> p < 4/10" for p
    using that round3_just_below_medium[of p] by (simp add: infer_risk_band_def)
  from li pr tr sc out hi med show ?thesis
    by (intro exI[of _ df] exI[of _ w1] exI[of _ training_df] exI[of _ w2] exI[of _ w3]
          exI[of _ raw] exI[of _ w4] exI[of _ out]) (simp add: comp_def)
qed

lemma example_output_columns:
  "getitem (the (files (snd (projr
      (run_pipeline example_library no_rng (Some ''in.csv'') ''out.csv'' False 0 example_world)))
      ''out.csv'')) ''risk_score'' = Inr (NumCol [7/10, 3/10])"
  "getitem (the (files (snd (projr
      (run_pipeline example_library no_rng (Some ''in.csv'') ''out.csv'' False 0 example_world)))
      ''out.csv'')) ''risk_band'' = Inr (StrCol [''High'', ''Low''])"
  by code_simp+

text \<open>
  The example run: the two records have the probabilities 0.6995 and 0.3; the scores
  written are 0.7 and 0.3 and the bands High and Low.
\<close>

theorem band_of_rounded_score_witness:
  "\<exists>res w' df w3 w4 out.
      run_pipeline example_library no_rng (Some ''in.csv'') ''out.csv'' False 0 example_world = Inr (res, w')
    \<and> score example_library (model res) df w3 = Inr ([6995/10000, 3/10], w4)
    \<and> files w' ''out.csv'' = Some out
    \<and> getitem out ''risk_score'' = Inr (NumCol [7/10, 3/10])
    \<and> getitem out ''risk_band'' = Inr (StrCol [''High'', ''Low''])"
proof -
  obtain res w' where
    run: "run_pipeline example_library no_rng (Some ''in.csv'') ''out.csv'' False 0 example_world = Inr (res, w')"
    using example_run_succeeds
    by (cases "run_pipeline example_library no_rng (Some ''in.csv'') ''out.csv'' False 0 example_world") auto
  from band_of_rounded_score[OF run] obtain df w3 raw w4 out where
    sc: "score example_library (model res) df w3 = Inr (raw, w4)" and
    out: "files w' ''out.csv'' = Some out"
    by blast
  from sc have raw: "raw = [6995/10000, 3/10]"
    unfolding score_def example_library_def stub_library_def
    by (auto simp: bnd_Inr_iff Let_def case_prod_beta column1_def split: if_splits)
  have "getitem out ''risk_score'' = Inr (NumCol [7/10, 3/10])"
    "getitem out ''risk_band'' = Inr (StrCol [''High'', ''Low''])"
    using example_output_columns run out by simp_all
  with run sc raw out show ?thesis by blast
qed

section \<open>Label synthesis\<close>

lemma getitem_col_len:
  assumes "wf_frame d" "getitem d name = Inr c"
  shows "col_len c = nrows d"
proof -
  from assms(2) have "map_of (cols d) name = Some c"
    by (auto simp: getitem_def split: option.splits)
  then have "(name, c) \<in> set (cols d)" by (rule map_of_SomeD)
  with assms(1) show ?thesis
    by (auto simp: wf_frame_def list_all_iff)
qed

lemma heuristic_numeric:
  assumes "getitem d ''engagement_score'' = Inr (NumCol e)"
    and "getitem d ''overtime_hours_month'' = Inr (NumCol ot)"
    and "getitem d ''absenteeism_days_month'' = Inr (NumCol ab)"
    and "getitem d ''last_promotion_months'' = Inr (NumCol pr)"
    and "length e = n" "length ot = n" "length ab = n" "length pr = n"
  shows "heuristic d =
           Inr (map (\<lambda>i. int (signal_counter
                  \<lparr>sig_engagement = e ! i, sig_overtime = ot ! i,
                   sig_absenteeism = ab ! i, sig_promotion = pr ! i\<rparr>)) [0..<n])"
proof -
  let ?h = "add_cols (add_cols (add_cols (bools_astype_int (map (\<lambda>x. x < 60) e))
                (bools_astype_int (map (\<lambda>x. x > 12) ot)))
                (bools_astype_int (map (\<lambda>x. x > 3) ab)))
                (bools_astype_int (map (\<lambda>x. x > 36) pr))"
  have h: "heuristic d = Inr ?h"
    using assms(1-4) by (simp add: heuristic_def bnd_Inr)
  have len: "length ?h = n"
    using assms(5-8) by (simp add: add_cols_def bools_astype_int_def)
  have "?h ! i = int (signal_counter
                  \<lparr>sig_engagement = e ! i, sig_overtime = ot ! i,
                   sig_absenteeism = ab ! i, sig_promotion = pr ! i\<rparr>)" if "i < n" for i
    using that assms(5-8) by (simp add: add_cols_def bools_astype_int_def signal_counter_def)
  with len have "?h = map (\<lambda>i. int (signal_counter
                  \<lparr>sig_engagement = e ! i, sig_overtime = ot ! i,
                   sig_absenteeism = ab ! i, sig_promotion = pr ! i\<rparr>)) [0..<n]"
    by (intro nth_equalityI) simp_all
  with h show ?thesis by simp
qed

lemma deref_new_frame:
  "deref (snd (new_frame d w)) (fst (new_frame d w)) = Inr d"
  by (simp add: new_frame_def deref_def)

lemma deref_store_same: "deref (store r d w) r = Inr d"
  by (simp add: deref_def store_def)

lemma deref_store_other: "r' \<noteq> r \<Longrightarrow> deref (store r d w) r' = deref w r'"
  by (simp add: deref_def store_def)

text \<open>
  Claim C2. On a frame without an outcome column whose four signal columns are numeric, the
  label column that \<open>_prepare_training_data\<close> attaches holds, for every record, the label
  the specification describes: the number of signals that fire (engagement below 60,
  overtime above 12, absenteeism above 3, more than 36 months since promotion) is counted and
  the label is 1 from two on, 0 otherwise. The label is a function of the four signals of
  the record alone, so equal records get equal labels; the two examples of the
  specification give 1 and 0.
\<close>

theorem synthesized_label_of_signals:
  assumes "wf_frame d" and "deref w df = Inr d" and "TARGET_COLUMN \<notin> set (columns d)"
    and "getitem d ''engagement_score'' = Inr (NumCol e)"
    and "getitem d ''overtime_hours_month'' = Inr (NumCol ot)"
    and "getitem d ''absenteeism_days_month'' = Inr (NumCol ab)"
    and "getitem d ''last_promotion_months'' = Inr (NumCol pr)"
  shows "(\<exists>training_df w' d'.
            prepare_training_data df w = Inr (training_df, w')
          \<and> deref w' training_df = Inr d'
          \<and> getitem d' TARGET_COLUMN =
              Inr (NumCol (map (\<lambda>i. of_int (synthesize_label
                     \<lparr>sig_engagement = e ! i, sig_overtime = ot ! i,
                      sig_absenteeism = ab ! i, sig_promotion = pr ! i\<rparr>)) [0..<nrows d])))
       \<and> synthesize_label \<lparr>sig_engagement = 50, sig_overtime = 15,
                            sig_absenteeism = 1, sig_promotion = 10\<rparr> = 1
       \<and> synthesize_label \<lparr>sig_engagement = 80, sig_overtime = 5,
                            sig_absenteeism = 1, sig_promotion = 10\<rparr> = 0"
proof -
  let ?n = "nrows d"
  let ?sig = "\<lambda>i. \<lparr>sig_engagement = e ! i, sig_overtime = ot ! i,
                    sig_absenteeism = ab ! i, sig_promotion = pr ! i\<rparr>"
  have lens: "length e = ?n" "length ot = ?n" "length ab = ?n" "length pr = ?n"
    using getitem_col_len[OF assms(1) assms(4)] getitem_col_len[OF assms(1) assms(5)]
      getitem_col_len[OF assms(1) assms(6)] getitem_col_len[OF assms(1) assms(7)] by simp_all
  have h: "heuristic d = Inr (map (\<lambda>i. int (signal_counter (?sig i))) [0..<?n])"
    by (rule heuristic_numeric[OF assms(4-7) lens])
  let ?flags = "map (\<lambda>i. of_int (synthesize_label (?sig i))) [0..<?n] :: real list"
  have flags: "map of_int (bools_astype_int (map (\<lambda>x. x \<ge> 2)
                 (map (\<lambda>i. int (signal_counter (?sig i))) [0..<?n]))) = ?flags"
    by (simp add: bools_astype_int_def synthesize_label_def comp_def)
  obtain d' where set: "setitem d TARGET_COLUMN (NumCol ?flags) = Inr d'"
    by (simp add: setitem_def)
  have "prepare_training_data df w =
          Inr (fst (new_frame d w), store (fst (new_frame d w)) d' (snd (new_frame d w)))"
    using assms(2,3) h set unfolding prepare_training_data_def
    by (simp add: bnd_Inr Let_def case_prod_beta flags del: upt.simps map_map)
  moreover have "deref (store (fst (new_frame d w)) d' (snd (new_frame d w))) (fst (new_frame d w)) = Inr d'"
    by (rule deref_store_same)
  moreover have "getitem d' TARGET_COLUMN = Inr (NumCol ?flags)"
    by (rule setitem_Inr(2)[OF set])
  moreover have "synthesize_label \<lparr>sig_engagement = 50, sig_overtime = 15,
                            sig_absenteeism = 1, sig_promotion = 10\<rparr> = 1"
    by (simp add: synthesize_label_def signal_counter_def)
  moreover have "synthesize_label \<lparr>sig_engagement = 80, sig_overtime = 5,
                            sig_absenteeism = 1, sig_promotion = 10\<rparr> = 0"
    by (simp add: synthesize_label_def signal_counter_def)
  ultimately show ?thesis by blast
qed


lemma wf_example_frame: "wf_frame example_frame"
  by (simp add: wf_frame_def example_frame_def columns_def)

theorem synthesized_label_of_signals_witness:
  "\<exists>training_df w' d'.
      prepare_training_data 0 \<lparr>heap = (\<lambda>r. None)(0 \<mapsto> example_frame), next_ref = 1, files = (\<lambda>p. None)\<rparr>
        = Inr (training_df, w')
    \<and> deref w' training_df = Inr d'
    \<and> getitem d' TARGET_COLUMN = Inr (NumCol [1, 0])"
proof -
  let ?w = "\<lparr>heap = (\<lambda>r. None)(0 \<mapsto> example_frame), next_ref = 1, files = (\<lambda>p. None)\<rparr>"
  have 1: "deref ?w 0 = Inr example_frame" by (simp add: deref_def)
  have 2: "TARGET_COLUMN \<notin> set (columns example_frame)"
    by (simp add: TARGET_COLUMN_def columns_def example_frame_def)
  have 3: "getitem example_frame ''engagement_score'' = Inr (NumCol [50, 80])"
    by (simp add: getitem_def example_frame_def)
  have 4: "getitem example_frame ''overtime_hours_month'' = Inr (NumCol [15, 5])"
    by (simp add: getitem_def example_frame_def)
  have 5: "getitem example_frame ''absenteeism_days_month'' = Inr (NumCol [1, 1])"
    by (simp add: getitem_def example_frame_def)
  have 6: "getitem example_frame ''last_promotion_months'' = Inr (NumCol [10, 10])"
    by (simp add: getitem_def example_frame_def)
  have n: "nrows example_frame = 2" by (simp add: example_frame_def)
  have u: "[0..<2] = [0, Suc 0]" by (simp add: upt_rec)
  show ?thesis
    using synthesized_label_of_signals[OF wf_example_frame 1 2 3 4 5 6]
    by (simp add: n u synthesize_label_def signal_counter_def)
qed

section \<open>Effects on the heap\<close>

lemma grows_refl: "grows w w"
  by (simp add: grows_def)

lemma grows_trans: "grows w1 w2 \<Longrightarrow> grows w2 w3 \<Longrightarrow> grows w1 w3"
  by (auto simp: grows_def)

lemma grows_deref: "grows w w' \<Longrightarrow> r < next_ref w \<Longrightarrow> deref w' r = deref w r"
  by (simp add: grows_def deref_def)

lemma grows_new_frame: "grows w (snd (new_frame d w))"
  by (simp add: grows_def new_frame_def)

lemma fst_new_frame: "fst (new_frame d w) = next_ref w"
  by (simp add: new_frame_def)

lemma next_ref_new_frame: "next_ref (snd (new_frame d w)) = Suc (next_ref w)"
  by (simp add: new_frame_def)

lemma grows_store_fresh: "next_ref w \<le> r \<Longrightarrow> grows w (store r d w)"
  by (simp add: grows_def store_def)

lemma grows_to_csv: "grows w (to_csv d path w)"
  by (simp add: grows_def to_csv_def)

lemma getitem_in_columns: "getitem d name = Inr c \<Longrightarrow> name \<in> set (columns d)"
  by (auto simp: getitem_def columns_def split: option.splits dest!: map_of_SomeD intro: image_eqI[where x="(name, c)"])

lemma prepare_training_data_labelled:
  assumes "deref w df = Inr d" "TARGET_COLUMN \<in> set (columns d)"
  shows "prepare_training_data df w = Inr (df, w)"
  using assms by (simp add: prepare_training_data_def bnd_Inr)

lemma prepare_training_data_unlabelled:
  assumes "prepare_training_data df w = Inr (training_df, w')"
    and "deref w df = Inr d" "TARGET_COLUMN \<notin> set (columns d)"
  shows "training_df = next_ref w"
    and "\<exists>d'. w' = store (next_ref w) d' (snd (new_frame d w)) \<and> deref w' training_df = Inr d'
              \<and> TARGET_COLUMN \<in> set (columns d')"
proof -
  from assms obtain h :: "int list" and d' where
    set: "setitem d TARGET_COLUMN (NumCol (map of_int (bools_astype_int (map (\<lambda>x. x \<ge> 2) h)))) = Inr d'"
    and res: "training_df = fst (new_frame d w)" "w' = store (fst (new_frame d w)) d' (snd (new_frame d w))"
    unfolding prepare_training_data_def
    by (auto simp: bnd_Inr bnd_Inr_iff Let_def case_prod_beta)
  show "training_df = next_ref w" using res(1) by (simp add: fst_new_frame)
  have "TARGET_COLUMN \<in> set (columns d')"
    using setitem_Inr(2)[OF set] by (rule getitem_in_columns)
  then show "\<exists>d'. w' = store (next_ref w) d' (snd (new_frame d w)) \<and> deref w' training_df = Inr d'
              \<and> TARGET_COLUMN \<in> set (columns d')"
    using res by (auto simp: fst_new_frame deref_store_same)
qed

lemma prepare_training_data_grows:
  assumes "prepare_training_data df w = Inr (training_df, w')"
  shows "grows w w'"
proof -
  from assms obtain d where d: "deref w df = Inr d"
    unfolding prepare_training_data_def bnd_Inr_iff by blast
  show ?thesis
  proof (cases "TARGET_COLUMN \<in> set (columns d)")
    case True
    with assms d show ?thesis
      by (simp add: prepare_training_data_labelled grows_refl)
  next
    case False
    from prepare_training_data_unlabelled(2)[OF assms d False] obtain d' where
      "w' = store (next_ref w) d' (snd (new_frame d w))" by blast
    moreover have "grows w (store (next_ref w) d' (snd (new_frame d w)))"
      by (simp add: grows_def store_def new_frame_def)
    ultimately show ?thesis by simp
  qed
qed

lemma score_Inr:
  assumes "score lib m df w = Inr (s, w')"
  obtains d xd pm where "deref w df = Inr d"
    "select d (filter (\<lambda>col. col \<in> set (columns d)) REQUIRED_COLUMNS) = Inr xd"
    "w' = snd (new_frame xd w)"
    "lib_predict_proba lib m xd = Inr pm" "column1 pm = Inr s"
  using assms unfolding score_def
  by (auto simp: bnd_Inr_iff Let_def case_prod_beta)

lemma score_grows: "score lib m df w = Inr (s, w') \<Longrightarrow> grows w w'"
  by (erule score_Inr) (simp add: grows_new_frame)

lemma train_model_grows:
  assumes "train_model lib df w = Inr (res, w')"
  shows "grows w w'"
proof -
  from assms obtain xd where "w' = snd (new_frame xd w)"
    unfolding train_model_def
    by (auto simp: bnd_Inr_iff Let_def case_prod_beta split: if_splits)
  then show ?thesis by (simp add: grows_new_frame)
qed

lemma write_output_grows:
  assumes "write_output df risk_scores importances output_path w = Inr w'"
  shows "grows w w'"
proof -
  from assms obtain od o3 where
    "w' = to_csv o3 output_path (store (fst (new_frame od w)) o3 (snd (new_frame od w)))"
    unfolding write_output_def bnd_Inr_iff Let_def case_prod_beta by auto
  then show ?thesis
    by (simp add: grows_def to_csv_def store_def new_frame_def)
qed


declare str_nat.simps [simp del]

lemma generate_sample_Inr:
  assumes "generate_sample rng config w = Inr (df, w1)"
  shows "\<exists>data. new_frame data w = (df, w1)"
  using assms unfolding generate_sample_def Let_def bnd_Inr_iff by auto

lemma load_csv_Inr:
  assumes "load_csv path w = Inr (df, w1)"
  shows "\<exists>d. files w path = Some d \<and> new_frame d w = (df, w1)
           \<and> filter (\<lambda>col. col \<notin> set (columns d)) REQUIRED_COLUMNS = []"
proof -
  from assms obtain d where
    rd: "read_csv path w = Inr (df, w1)" and d: "deref w1 df = Inr d" and
    m: "filter (\<lambda>col. col \<notin> set (columns d)) REQUIRED_COLUMNS = []"
    unfolding load_csv_def by (auto simp: bnd_Inr_iff Let_def split: if_splits)
  from rd obtain d0 where f: "files w path = Some d0" and n: "new_frame d0 w = (df, w1)"
    unfolding read_csv_def by (auto split: option.splits)
  from n have "df = next_ref w" "heap w1 df = Some d0"
    by (auto simp: new_frame_def)
  with d have "d0 = d" by (simp add: deref_def)
  with f n m show ?thesis by simp
qed

lemma new_frame_allocates:
  assumes "new_frame d w = (df, w1)"
  shows "df < next_ref w1 \<and> deref w1 df = Inr d"
  using assms by (auto simp: new_frame_def deref_def)

lemma load_input_allocates:
  assumes "load_input rng input_path flag rows w = Inr (df, w1)"
  shows "df < next_ref w1 \<and> (\<exists>d. deref w1 df = Inr d)"
proof (cases flag)
  case True
  with assms obtain data where "new_frame data w = (df, w1)"
    unfolding load_input_def using generate_sample_Inr by fastforce
  then show ?thesis
    using new_frame_allocates by blast
next
  case False
  with assms obtain path where "load_csv path w = Inr (df, w1)"
    unfolding load_input_def by (auto split: option.splits)
  then obtain d where "new_frame d w = (df, w1)"
    using load_csv_Inr by blast
  then show ?thesis
    using new_frame_allocates by blast
qed

text \<open>
  Claim C8. A frame that already carries the outcome column is returned as it is, the same
  object in an unchanged world. Otherwise the label is attached to a fresh copy: the frame
  returned is another object, it carries the outcome column, and the input frame is what it
  was. Over a whole run that succeeds, the input frame is at the end what it was when it
  was loaded, so no column is ever added to it.
\<close>

theorem input_frame_unmodified:
  "(deref w df = Inr d \<longrightarrow> TARGET_COLUMN \<in> set (columns d) \<longrightarrow>
      prepare_training_data df w = Inr (df, w))
   \<and> (deref v df2 = Inr d2 \<longrightarrow> TARGET_COLUMN \<notin> set (columns d2) \<longrightarrow> df2 < next_ref v \<longrightarrow>
      prepare_training_data df2 v = Inr (training_df, v') \<longrightarrow>
        training_df \<noteq> df2 \<and> deref v' df2 = Inr d2
        \<and> (\<exists>d'. deref v' training_df = Inr d' \<and> TARGET_COLUMN \<in> set (columns d')))
   \<and> (run_pipeline lib rng input_path output_path flag rows w0 = Inr (res, w9) \<longrightarrow>
        (\<exists>df0 w1 d0. load_input rng input_path flag rows w0 = Inr (df0, w1)
            \<and> deref w1 df0 = Inr d0 \<and> deref w9 df0 = Inr d0))"
proof (intro conjI impI)
  assume "deref w df = Inr d" "TARGET_COLUMN \<in> set (columns d)"
  then show "prepare_training_data df w = Inr (df, w)"
    by (rule prepare_training_data_labelled)
next
  assume a: "deref v df2 = Inr d2" "TARGET_COLUMN \<notin> set (columns d2)" "df2 < next_ref v"
    "prepare_training_data df2 v = Inr (training_df, v')"
  show "training_df \<noteq> df2"
    using prepare_training_data_unlabelled(1)[OF a(4) a(1) a(2)] a(3) by simp
  show "deref v' df2 = Inr d2"
    using grows_deref[OF prepare_training_data_grows[OF a(4)] a(3)] a(1) by simp
  show "\<exists>d'. deref v' training_df = Inr d' \<and> TARGET_COLUMN \<in> set (columns d')"
    using prepare_training_data_unlabelled(2)[OF a(4) a(1) a(2)] by blast
next
  assume "run_pipeline lib rng input_path output_path flag rows w0 = Inr (res, w9)"
  then obtain df0 w1 training_df w2 w3 risk_scores w4 where
    1: "load_input rng input_path flag rows w0 = Inr (df0, w1)" and
    2: "prepare_training_data df0 w1 = Inr (training_df, w2)" and
    3: "train_model lib training_df w2 = Inr (res, w3)" and
    4: "score lib (model res) df0 w3 = Inr (risk_scores, w4)" and
    5: "write_output df0 risk_scores (feature_importance res) output_path w4 = Inr w9"
    by (rule run_pipeline_Inr)
  from load_input_allocates[OF 1] obtain d0 where
    lt: "df0 < next_ref w1" and d0: "deref w1 df0 = Inr d0" by blast
  have "grows w1 w9"
    using prepare_training_data_grows[OF 2] train_model_grows[OF 3] score_grows[OF 4]
      write_output_grows[OF 5] by (blast intro: grows_trans)
  then have "deref w9 df0 = Inr d0"
    using grows_deref lt d0 by simp
  with 1 d0 show "\<exists>df0 w1 d0. load_input rng input_path flag rows w0 = Inr (df0, w1)
            \<and> deref w1 df0 = Inr d0 \<and> deref w9 df0 = Inr d0"
    by blast
qed

lemma example_prepare_succeeds:
  "\<not> isl (prepare_training_data 0
      \<lparr>heap = (\<lambda>r. None)(0 \<mapsto> example_frame), next_ref = 1, files = (\<lambda>p. None)\<rparr>)"
  by code_simp

theorem input_frame_unmodified_witness:
  "prepare_training_data 0
      \<lparr>heap = (\<lambda>r. None)(0 \<mapsto> \<lparr>nrows = 1, cols = [(''exit_flag'', NumCol [1])]\<rparr>),
       next_ref = 1, files = (\<lambda>p. None)\<rparr>
     = Inr (0, \<lparr>heap = (\<lambda>r. None)(0 \<mapsto> \<lparr>nrows = 1, cols = [(''exit_flag'', NumCol [1])]\<rparr>),
               next_ref = 1, files = (\<lambda>p. None)\<rparr>)
   \<and> (\<exists>training_df v'.
         prepare_training_data 0
           \<lparr>heap = (\<lambda>r. None)(0 \<mapsto> example_frame), next_ref = 1, files = (\<lambda>p. None)\<rparr>
           = Inr (training_df, v')
         \<and> training_df \<noteq> 0 \<and> deref v' 0 = Inr example_frame)
   \<and> (\<exists>res w9 df0 w1 d0.
         run_pipeline example_library no_rng (Some ''in.csv'') ''out.csv'' False 0 example_world = Inr (res, w9)
         \<and> load_input no_rng (Some ''in.csv'') False 0 example_world = Inr (df0, w1)
         \<and> deref w1 df0 = Inr d0 \<and> deref w9 df0 = Inr d0)"
proof -
  let ?l = "\<lparr>nrows = 1, cols = [(''exit_flag'', NumCol [1])]\<rparr>"
  let ?w = "\<lparr>heap = (\<lambda>r. None)(0 \<mapsto> ?l), next_ref = 1, files = (\<lambda>p. None)\<rparr>"
  let ?v = "\<lparr>heap = (\<lambda>r. None)(0 \<mapsto> example_frame), next_ref = 1, files = (\<lambda>p. None)\<rparr>"
  obtain training_df v' where
    p: "prepare_training_data 0 ?v = Inr (training_df, v')"
    using example_prepare_succeeds by (cases "prepare_training_data 0 ?v") auto
  obtain res w9 where
    r: "run_pipeline example_library no_rng (Some ''in.csv'') ''out.csv'' False 0 example_world = Inr (res, w9)"
    using example_run_succeeds
    by (cases "run_pipeline example_library no_rng (Some ''in.csv'') ''out.csv'' False 0 example_world") auto
  have 1: "deref ?w 0 = Inr ?l" by (simp add: deref_def)
  have 2: "TARGET_COLUMN \<in> set (columns ?l)" by (simp add: TARGET_COLUMN_def columns_def)
  have 3: "deref ?v 0 = Inr example_frame" by (simp add: deref_def)
  have 4: "TARGET_COLUMN \<notin> set (columns example_frame)"
    by (simp add: TARGET_COLUMN_def columns_def example_frame_def)
  have 5: "(0::nat) < next_ref ?v" by simp
  from input_frame_unmodified[where w="?w" and df=0 and d="?l" and v="?v" and ?df2.0=0
      and ?d2.0=example_frame and training_df=training_df and v'=v' and lib=example_library
      and rng=no_rng and input_path="Some ''in.csv''" and output_path="''out.csv''"
      and flag=False and rows=0 and ?w0.0=example_world and res=res and ?w9.0=w9]
    1 2 3 4 5 p r
  show ?thesis by blast
qed

section \<open>Validation of the required columns\<close>

lemma load_csv_of_file:
  assumes "files w path = Some d"
  shows "load_csv path w =
           (let missing = filter (\<lambda>col. col \<notin> set (columns d)) REQUIRED_COLUMNS
            in if missing \<noteq> []
               then Inl (ValueError (''Missing required columns: '' @ join '', '' missing))
               else Inr (new_frame d w))"
  using assms
  by (simp add: load_csv_def read_csv_def bnd_Inr new_frame_def deref_def Let_def)

lemma sublist_prepend: "sublist x ys \<Longrightarrow> sublist x (ps @ ys)"
  unfolding sublist_def by (metis append.assoc)

lemma sublist_join:
  "x \<in> set xs \<Longrightarrow> sublist x (join sep xs)"
proof (induction sep xs rule: join.induct)
  case (1 sep)
  then show ?case by simp
next
  case (2 sep y)
  then show ?case by simp
next
  case (3 sep y z zs)
  show ?case
  proof (cases "x = y")
    case True
    then show ?thesis by (simp add: sublist_append_rightI)
  next
    case False
    with 3 have "sublist x (join sep (z # zs))" by simp
    then have "sublist x (sep @ join sep (z # zs))"
      by (rule sublist_prepend)
    then have "sublist x (y @ sep @ join sep (z # zs))"
      by (rule sublist_prepend)
    then show ?thesis by simp
  qed
qed

text \<open>
  Claim C7. Loading a file succeeds exactly when all twelve required columns are present
  in it. When one is missing, the run of the pipeline on that file is the error of the
  validation, whatever the library would do: labelling, encoding and training are not
  reached. The message of the error contains the name of every required column that is
  missing.
\<close>

theorem missing_columns_fail_first:
  assumes "files w path = Some d"
  shows "length REQUIRED_COLUMNS = 12
       \<and> ((\<exists>df w1. load_csv path w = Inr (df, w1)) \<longleftrightarrow> set REQUIRED_COLUMNS \<subseteq> set (columns d))
       \<and> (\<not> set REQUIRED_COLUMNS \<subseteq> set (columns d) \<longrightarrow>
            run_pipeline lib rng (Some path) output_path False rows w =
              Inl (ValueError (''Missing required columns: '' @
                     join '', '' (filter (\<lambda>col. col \<notin> set (columns d)) REQUIRED_COLUMNS)))
          \<and> (\<forall>col \<in> set REQUIRED_COLUMNS. col \<notin> set (columns d) \<longrightarrow>
                sublist col (''Missing required columns: '' @
                     join '', '' (filter (\<lambda>col. col \<notin> set (columns d)) REQUIRED_COLUMNS))))"
proof -
  let ?missing = "filter (\<lambda>col. col \<notin> set (columns d)) REQUIRED_COLUMNS"
  have m: "?missing = [] \<longleftrightarrow> set REQUIRED_COLUMNS \<subseteq> set (columns d)"
    by (auto simp: filter_empty_conv)
  have a: "length REQUIRED_COLUMNS = 12"
    by (simp add: REQUIRED_COLUMNS_def)
  have b: "(\<exists>df w1. load_csv path w = Inr (df, w1)) \<longleftrightarrow> set REQUIRED_COLUMNS \<subseteq> set (columns d)"
  proof (cases "?missing = []")
    case True
    then have "load_csv path w = Inr (new_frame d w)"
      using load_csv_of_file[OF assms] by (simp add: Let_def)
    with True m show ?thesis
      by (metis surj_pair)
  next
    case False
    then have "load_csv path w = Inl (ValueError (''Missing required columns: '' @ join '', '' ?missing))"
      using load_csv_of_file[OF assms] by (simp add: Let_def)
    with False m show ?thesis by simp
  qed
  have c: "run_pipeline lib rng (Some path) output_path False rows w =
             Inl (ValueError (''Missing required columns: '' @ join '', '' ?missing))"
    if "\<not> set REQUIRED_COLUMNS \<subseteq> set (columns d)"
  proof -
    from that m have "?missing \<noteq> []" by simp
    then have "load_csv path w = Inl (ValueError (''Missing required columns: '' @ join '', '' ?missing))"
      using load_csv_of_file[OF assms] by (simp add: Let_def)
    then show ?thesis
      by (simp add: run_pipeline_def load_input_def bnd_Inl)
  qed
  have e: "sublist col (''Missing required columns: '' @ join '', '' ?missing)"
    if "col \<in> set REQUIRED_COLUMNS" "col \<notin> set (columns d)" for col
  proof -
    from that have "col \<in> set ?missing" by simp
    then have "sublist col (join '', '' ?missing)" by (rule sublist_join)
    then show ?thesis by (rule sublist_prepend)
  qed
  from a b c e show ?thesis by blast
qed

theorem missing_columns_fail_first_witness:
  "run_pipeline example_library no_rng (Some ''bad.csv'') ''out.csv'' False 0
      \<lparr>heap = (\<lambda>r. None), next_ref = 0,
       files = (\<lambda>p. None)(''bad.csv'' \<mapsto>
         \<lparr>nrows = 2, cols = filter (\<lambda>(n, c). n \<noteq> ''engagement_score'' \<and> n \<noteq> ''dept'') (cols example_frame)\<rparr>)\<rparr>
     = Inl (ValueError ''Missing required columns: dept, engagement_score'')"
proof -
  let ?d = "\<lparr>nrows = 2, cols = filter (\<lambda>(n, c). n \<noteq> ''engagement_score'' \<and> n \<noteq> ''dept'') (cols example_frame)\<rparr>"
  let ?w = "\<lparr>heap = (\<lambda>r. None), next_ref = 0, files = (\<lambda>p. None)(''bad.csv'' \<mapsto> ?d)\<rparr>"
  have f: "files ?w ''bad.csv'' = Some ?d" by simp
  have c: "columns ?d = [''employee_id'', ''tenure_months'', ''last_promotion_months'',
      ''salary_band'', ''manager_span'', ''overtime_hours_month'',
      ''absenteeism_days_month'', ''peer_turnover_rate'', ''performance_score'',
      ''internal_mobility'']"
    by (simp add: columns_def example_frame_def)
  have n: "\<not> set REQUIRED_COLUMNS \<subseteq> set (columns ?d)"
    unfolding c by (simp add: REQUIRED_COLUMNS_def)
  have j: "join '', '' (filter (\<lambda>col. col \<notin> set (columns ?d)) REQUIRED_COLUMNS) = ''dept, engagement_score''"
    unfolding c by (simp add: REQUIRED_COLUMNS_def)
  from missing_columns_fail_first[OF f, of example_library no_rng "''out.csv''" 0] n j
  show ?thesis by simp
qed

section \<open>Unseen categorical levels\<close>

text \<open>
  The encoder is scikit-learn's; the facts of this section are about its model above, with
  the policy for unknown levels taken from \<open>_build_pipeline\<close>.
\<close>

lemma set_ohe_fit_nth:
  "j < length cat_columns \<Longrightarrow> set (ohe_fit cat_columns ! j) = set (cat_columns ! j)"
  by (simp add: ohe_fit_def)

lemma length_ohe_fit: "length (ohe_fit cat_columns) = length cat_columns"
  by (simp add: ohe_fit_def)

lemma ohe_encode_level_ignore:
  "\<exists>block. ohe_encode_level HandleIgnore levels v = Inr block
      \<and> length block = length levels
      \<and> (v \<notin> set levels \<longrightarrow> block = replicate (length levels) 0)"
  by (simp add: ohe_encode_level_def)

lemma ohe_encode_level_error:
  "v \<notin> set levels \<Longrightarrow> isl (ohe_encode_level HandleError levels v)"
  by (simp add: ohe_encode_level_def)

lemma ohe_encode_record_ignore:
  assumes "length r = length categories"
  shows "\<exists>blocks. ohe_encode_record HandleIgnore categories r = Inr blocks
      \<and> map length blocks = map length categories
      \<and> (\<forall>j < length r. r ! j \<notin> set (categories ! j) \<longrightarrow>
            blocks ! j = replicate (length (categories ! j)) 0)"
  using assms
proof (induction r categories rule: list_induct2)
  case Nil
  then show ?case by simp
next
  case (Cons v vs levels ls)
  from ohe_encode_level_ignore[of levels v] obtain block where
    b: "ohe_encode_level HandleIgnore levels v = Inr block" "length block = length levels"
      "v \<notin> set levels \<longrightarrow> block = replicate (length levels) 0"
    by blast
  from Cons.IH obtain blocks where
    bs: "ohe_encode_record HandleIgnore ls vs = Inr blocks" "map length blocks = map length ls"
      "\<forall>j < length vs. vs ! j \<notin> set (ls ! j) \<longrightarrow> blocks ! j = replicate (length (ls ! j)) 0"
    by blast
  have "ohe_encode_record HandleIgnore (levels # ls) (v # vs) = Inr (block # blocks)"
    using b(1) bs(1) by (simp add: bnd_Inr)
  moreover have "map length (block # blocks) = map length (levels # ls)"
    using b(2) bs(2) by simp
  moreover have "(v # vs) ! j \<notin> set ((levels # ls) ! j) \<longrightarrow>
      (block # blocks) ! j = replicate (length ((levels # ls) ! j)) 0"
    if "j < length (v # vs)" for j
    using that b(3) bs(3) by (cases j) auto
  ultimately show ?case by blast
qed

lemma ohe_transform_ignore:
  assumes "\<forall>r \<in> set records. length r = length categories"
  shows "ohe_transform HandleIgnore categories records =
           Inr (map (\<lambda>r. concat (projr (ohe_encode_record HandleIgnore categories r))) records)"
  using assms
proof (induction records)
  case Nil
  then show ?case by simp
next
  case (Cons r rs)
  then have "length r = length categories" by simp
  from ohe_encode_record_ignore[OF this] obtain blocks where
    "ohe_encode_record HandleIgnore categories r = Inr blocks" by blast
  with Cons show ?case by (simp add: bnd_Inr)
qed

text \<open>
  Claim C3. Under the policy that \<open>_build_pipeline\<close> sets, encoding a collection of records
  with categories fitted on a training collection does not raise, whatever the levels of
  the records; every encoded row has the width fixed by the fit (one column per fitted
  level, no new column); and where a record has, in some field, a level that the training
  collection does not have, the indicators of that field in the row of that record are
  all zero.
\<close>

theorem unseen_level_encodes_to_zeros:
  assumes "\<forall>r \<in> set records. length r = length train_columns"
    and "i < length records" and "j < length train_columns"
    and "records ! i ! j \<notin> set (train_columns ! j)"
  shows "\<exists>rows blocks.
           ohe_transform (handle_unknown (build_pipeline cat_fs num_fs)) (ohe_fit train_columns) records = Inr rows
         \<and> length rows = length records
         \<and> (\<forall>row \<in> set rows. length row = sum_list (map length (ohe_fit train_columns)))
         \<and> ohe_encode_record (handle_unknown (build_pipeline cat_fs num_fs)) (ohe_fit train_columns) (records ! i) = Inr blocks
         \<and> rows ! i = concat blocks
         \<and> map length blocks = map length (ohe_fit train_columns)
         \<and> blocks ! j = replicate (length (ohe_fit train_columns ! j)) 0"
proof -
  let ?cats = "ohe_fit train_columns"
  let ?rows = "map (\<lambda>r. concat (projr (ohe_encode_record HandleIgnore ?cats r))) records"
  have pol: "handle_unknown (build_pipeline cat_fs num_fs) = HandleIgnore"
    by (simp add: build_pipeline_def)
  have all: "\<forall>r \<in> set records. length r = length ?cats"
    using assms(1) by (simp add: length_ohe_fit)
  have t: "ohe_transform HandleIgnore ?cats records = Inr ?rows"
    by (rule ohe_transform_ignore[OF all])
  have w: "length row = sum_list (map length ?cats)" if "row \<in> set ?rows" for row
  proof -
    from that obtain r where r: "r \<in> set records"
      and row: "row = concat (projr (ohe_encode_record HandleIgnore ?cats r))" by auto
    from all r have "length r = length ?cats" by simp
    from ohe_encode_record_ignore[OF this] obtain blocks where
      "ohe_encode_record HandleIgnore ?cats r = Inr blocks" "map length blocks = map length ?cats"
      by blast
    with row show ?thesis by (simp add: length_concat)
  qed
  have li: "length (records ! i) = length ?cats"
    using all assms(2) by simp
  from ohe_encode_record_ignore[OF li] obtain blocks where
    bl: "ohe_encode_record HandleIgnore ?cats (records ! i) = Inr blocks"
      "map length blocks = map length ?cats"
      "\<forall>k < length (records ! i). records ! i ! k \<notin> set (?cats ! k) \<longrightarrow>
            blocks ! k = replicate (length (?cats ! k)) 0"
    by blast
  have "records ! i ! j \<notin> set (?cats ! j)"
    using assms(3,4) by (simp add: set_ohe_fit_nth)
  with bl(3) li assms(3) have z: "blocks ! j = replicate (length (?cats ! j)) 0"
    by (simp add: length_ohe_fit)
  have ri: "?rows ! i = concat blocks"
    using assms(2) bl(1) by simp
  from t w bl(1,2) z ri show ?thesis
    unfolding pol by (intro exI[of _ ?rows] exI[of _ blocks]) simp
qed

theorem unseen_level_encodes_to_zeros_witness:
  "ohe_transform (handle_unknown (build_pipeline [''dept'', ''salary_band''] []))
       (ohe_fit [[''Sales'', ''HR'', ''Sales''], [''B'', ''A'']]) [[''HR'', ''B''], [''Ops'', ''A'']]
     = Inr [[1, 0, 0, 1], [0, 0, 1, 0]]
   \<and> ohe_fit [[''Sales'', ''HR'', ''Sales''], [''B'', ''A'']] = [[''HR'', ''Sales''], [''A'', ''B'']]"
proof -
  have 1: "\<forall>r \<in> set [[''HR'', ''B''], [''Ops'', ''A'']]. length r = length [[''Sales'', ''HR'', ''Sales''], [''B'', ''A'']]"
    by simp
  have f: "ohe_fit [[''Sales'', ''HR'', ''Sales''], [''B'', ''A'']] = [[''HR'', ''Sales''], [''A'', ''B'']]"
    by code_simp
  have t: "ohe_transform (handle_unknown (build_pipeline [''dept'', ''salary_band''] []))
       (ohe_fit [[''Sales'', ''HR'', ''Sales''], [''B'', ''A'']]) [[''HR'', ''B''], [''Ops'', ''A'']]
     = Inr [[1, 0, 0, 1], [0, 0, 1, 0]]"
    by code_simp
  have 2: "1 < length [[''HR'', ''B''], [''Ops'', ''A'']]" by simp
  have 3: "0 < length [[''Sales'', ''HR'', ''Sales''], [''B'', ''A'']]" by simp
  have 4: "[[''HR'', ''B''], [''Ops'', ''A'']] ! 1 ! 0 \<notin> set ([[''Sales'', ''HR'', ''Sales''], [''B'', ''A'']] ! 0)"
    by simp
  from unseen_level_encodes_to_zeros[OF 1 2 3 4, of "[''dept'', ''salary_band'']" "[]"] t f
  show ?thesis by simp
qed

section \<open>The feature importance table\<close>

lemma dict_set_fresh: "k \<notin> fst ` set d \<Longrightarrow> dict_set k v d = d @ [(k, v)]"
  by (induction d) auto

lemma foldl_dict_set_distinct:
  "distinct (map fst (acc @ ps)) \<Longrightarrow> foldl (\<lambda>d (k, v). dict_set k v d) acc ps = acc @ ps"
proof (induction ps arbitrary: acc)
  case Nil
  then show ?case by simp
next
  case (Cons p ps)
  obtain k v where p: "p = (k, v)" by (cases p)
  from Cons.prems p have "k \<notin> fst ` set acc" by auto
  then have "dict_set k v acc = acc @ [(k, v)]" by (rule dict_set_fresh)
  moreover from Cons.prems p have "distinct (map fst ((acc @ [(k, v)]) @ ps))" by simp
  ultimately show ?case
    using Cons.IH[of "acc @ [(k, v)]"] p by simp
qed

lemma dict_of_distinct: "distinct (map fst ps) \<Longrightarrow> dict_of ps = ps"
  using foldl_dict_set_distinct[of "[]" ps] by (simp add: dict_of_def)

lemma distinct_map_fst_sort_key:
  assumes "distinct (map fst xs)"
  shows "distinct (map fst (sort_key f xs))"
proof -
  have "card (fst ` set xs) = length xs"
    using assms distinct_card[of "map fst xs"] by simp
  then have "card (set (map fst (sort_key f xs))) = length (map fst (sort_key f xs))"
    by simp
  then show ?thesis by (rule card_distinct)
qed

lemma sorted_desc_weights: "sorted_wrt (\<ge>) (map snd (sorted_desc ps))"
proof -
  have "sorted (map (\<lambda>x. - snd x) (sort_key (\<lambda>x. - snd x) ps))"
    by (rule sorted_sort_key)
  then show ?thesis
    by (simp add: sorted_desc_def sorted_map sorted_wrt_map)
qed

lemma sorted_desc_stable:
  "filter (\<lambda>p. snd p = v) (sorted_desc ps) = filter (\<lambda>p. snd p = v) ps"
  using sort_key_stable[of "\<lambda>x. - snd x" "- v" ps] by (simp add: sorted_desc_def)

lemma top_pairs_length: "length (top_pairs names imps) \<le> 8"
  by (simp add: top_pairs_def)

lemma top_pairs_subset: "set (top_pairs names imps) \<subseteq> set (zip names imps)"
  unfolding top_pairs_def sorted_desc_def using set_take_subset[of 8 "sort_key (\<lambda>x. - snd x) (zip names imps)"]
  by simp

lemma top_pairs_sorted: "sorted_wrt (\<ge>) (map snd (top_pairs names imps))"
  unfolding top_pairs_def take_map[symmetric]
  by (rule sorted_wrt_take) (rule sorted_desc_weights)

lemma top_pairs_ties:
  "prefix (filter (\<lambda>p. snd p = v) (top_pairs names imps)) (filter (\<lambda>p. snd p = v) (zip names imps))"
proof -
  have "prefix (take 8 (sorted_desc (zip names imps))) (sorted_desc (zip names imps))"
    by (rule take_is_prefix)
  then have "prefix (filter (\<lambda>p. snd p = v) (take 8 (sorted_desc (zip names imps))))
                    (filter (\<lambda>p. snd p = v) (sorted_desc (zip names imps)))"
    by (rule filter_mono_prefix)
  then show ?thesis
    by (simp add: top_pairs_def sorted_desc_stable)
qed

lemma top_pairs_distinct:
  assumes "distinct names"
  shows "distinct (map fst (top_pairs names imps))"
proof -
  have "distinct (map fst (zip names imps))"
    using assms by (simp add: map_fst_zip_take)
  then have "distinct (map fst (sorted_desc (zip names imps)))"
    unfolding sorted_desc_def by (rule distinct_map_fst_sort_key)
  then show ?thesis
    unfolding top_pairs_def take_map[symmetric] by (rule distinct_take)
qed

lemma extract_feature_importance_Inr:
  assumes "extract_feature_importance lib m cat_fs num_fs = Inr table"
  obtains cat_names where
    "get_feature_names_out (lib_categories lib m) cat_fs = Inr cat_names"
    "table = dict_of (top_pairs (num_fs @ cat_names) (lib_feature_importances lib m))"
  using assms unfolding extract_feature_importance_def top_pairs_def
  by (auto simp: bnd_Inr_iff Let_def)

lemma train_model_Inr:
  assumes "train_model lib df w = Inr (res, w')"
  obtains d where "deref w df = Inr d"
    "extract_feature_importance lib (model res) [''dept'', ''salary_band'']
       (filter (\<lambda>col. col \<notin> set [''dept'', ''salary_band''] \<and> col \<noteq> ''employee_id'')
          (filter (\<lambda>col. col \<in> set (columns d)) REQUIRED_COLUMNS)) = Inr (feature_importance res)"
  using assms unfolding train_model_def
  by (auto simp: bnd_Inr_iff Let_def case_prod_beta split: if_splits)


lemma map_fst_dict_set:
  "map fst (dict_set k v d) = (if k \<in> set (map fst d) then map fst d else map fst d @ [k])"
  by (induction d) force+

lemma keys_dict_set: "set (map fst (dict_set k v d)) = insert k (set (map fst d))"
  unfolding map_fst_dict_set by auto

lemma keys_foldl_dict_set:
  "set (map fst (foldl (\<lambda>d (k, v). dict_set k v d) acc ps)) = set (map fst acc) \<union> set (map fst ps)"
proof (induction ps arbitrary: acc)
  case Nil
  then show ?case by simp
next
  case (Cons p ps)
  obtain k v where p: "p = (k, v)" by (cases p)
  have "set (map fst (foldl (\<lambda>d (k, v). dict_set k v d) (dict_set k v acc) ps))
          = set (map fst (dict_set k v acc)) \<union> set (map fst ps)"
    by (rule Cons.IH)
  then show ?case
    unfolding keys_dict_set using p by simp
qed

lemma keys_dict_of: "set (map fst (dict_of ps)) = set (map fst ps)"
  using keys_foldl_dict_set[of "[]" ps] by (simp add: dict_of_def)

lemma get_feature_names_out_two:
  assumes "get_feature_names_out categories [f1, f2] = Inr cat_names"
  obtains c1 c2 where "categories = [c1, c2]"
    "cat_names = map (\<lambda>c. f1 @ ''_'' @ c) c1 @ map (\<lambda>c. f2 @ ''_'' @ c) c2"
proof -
  from assms have len: "length categories = 2"
    and eq: "cat_names = concat (map2 (\<lambda>f cs. map (\<lambda>c. f @ ''_'' @ c) cs) [f1, f2] categories)"
    by (auto simp: get_feature_names_out_def split: if_splits)
  from len obtain c1 c2 where "categories = [c1, c2]"
    by (cases categories; cases "tl categories") auto
  with eq that show thesis by simp
qed

lemma expanded_names_not_required:
  "''dept_'' @ c \<notin> set REQUIRED_COLUMNS" "''salary_band_'' @ c \<notin> set REQUIRED_COLUMNS"
  by (simp_all add: REQUIRED_COLUMNS_def)

lemma distinct_REQUIRED_COLUMNS: "distinct REQUIRED_COLUMNS"
  by (simp add: REQUIRED_COLUMNS_def)

lemma encoded_columns_distinct:
  assumes "distinct c1" "distinct c2"
  shows "distinct (encoded_columns d [c1, c2])"
proof -
  let ?num = "filter (\<lambda>col. col \<notin> set [''dept'', ''salary_band''] \<and> col \<noteq> ''employee_id'')
       (filter (\<lambda>col. col \<in> set (columns d)) REQUIRED_COLUMNS)"
  have num: "distinct ?num"
    using distinct_REQUIRED_COLUMNS by simp
  have sub: "set ?num \<subseteq> set REQUIRED_COLUMNS" by auto
  have d1: "distinct (map (\<lambda>c. ''dept'' @ ''_'' @ c) c1)"
    using assms(1) by (simp add: distinct_map inj_on_def)
  have d2: "distinct (map (\<lambda>c. ''salary_band'' @ ''_'' @ c) c2)"
    using assms(2) by (simp add: distinct_map inj_on_def)
  have n1: "set ?num \<inter> set (map (\<lambda>c. ''dept'' @ ''_'' @ c) c1) = {}"
    using sub expanded_names_not_required(1) by auto
  have n2: "set ?num \<inter> set (map (\<lambda>c. ''salary_band'' @ ''_'' @ c) c2) = {}"
    using sub expanded_names_not_required(2) by auto
  have n3: "set (map (\<lambda>c. ''dept'' @ ''_'' @ c) c1) \<inter> set (map (\<lambda>c. ''salary_band'' @ ''_'' @ c) c2) = {}"
    by auto
  show ?thesis
    unfolding encoded_columns_def using num d1 d2 n1 n2 n3
    by (simp add: Int_Un_distrib)
qed

lemma train_model_table:
  assumes "train_model lib df w = Inr (res, w')"
  obtains d c1 c2 where "deref w df = Inr d" "lib_categories lib (model res) = [c1, c2]"
    "feature_importance res =
       dict_of (top_pairs (encoded_columns d [c1, c2]) (lib_feature_importances lib (model res)))"
proof -
  from assms obtain d where d: "deref w df = Inr d" and
    ex: "extract_feature_importance lib (model res) [''dept'', ''salary_band'']
       (filter (\<lambda>col. col \<notin> set [''dept'', ''salary_band''] \<and> col \<noteq> ''employee_id'')
          (filter (\<lambda>col. col \<in> set (columns d)) REQUIRED_COLUMNS)) = Inr (feature_importance res)"
    by (rule train_model_Inr)
  from ex obtain cat_names where
    g: "get_feature_names_out (lib_categories lib (model res)) [''dept'', ''salary_band''] = Inr cat_names"
    and t: "feature_importance res = dict_of (top_pairs
       (filter (\<lambda>col. col \<notin> set [''dept'', ''salary_band''] \<and> col \<noteq> ''employee_id'')
          (filter (\<lambda>col. col \<in> set (columns d)) REQUIRED_COLUMNS) @ cat_names)
       (lib_feature_importances lib (model res)))"
    by (rule extract_feature_importance_Inr)
  from g obtain c1 c2 where c: "lib_categories lib (model res) = [c1, c2]"
    "cat_names = map (\<lambda>c. ''dept'' @ ''_'' @ c) c1 @ map (\<lambda>c. ''salary_band'' @ ''_'' @ c) c2"
    by (rule get_feature_names_out_two)
  have "feature_importance res =
       dict_of (top_pairs (encoded_columns d [c1, c2]) (lib_feature_importances lib (model res)))"
    unfolding t c(2) encoded_columns_def by simp
  with d c(1) that show thesis by blast
qed


text \<open>
  Claim C5. For a model whose training succeeds, with the fitted levels of each categorical
  field distinct and non-negative importances (both as scikit-learn gives them), the
  table has at most 8 entries, its weights are non-negative and non-increasing, and for
  every weight the entries of that weight stand in the table in the order of their encoded
  columns, as an initial part of the encoded columns of that weight.
\<close>

theorem importance_table_order:
  assumes "train_model lib df w = Inr (res, w')"
    and "list_all distinct (lib_categories lib (model res))"
    and "list_all (\<lambda>x. 0 \<le> x) (lib_feature_importances lib (model res))"
  shows "length (feature_importance res) \<le> 8
       \<and> list_all (\<lambda>(k, v). 0 \<le> v) (feature_importance res)
       \<and> sorted_wrt (\<ge>) (map snd (feature_importance res))
       \<and> (\<exists>d. deref w df = Inr d
            \<and> (\<forall>v. prefix (filter (\<lambda>p. snd p = v) (feature_importance res))
                   (filter (\<lambda>p. snd p = v)
                      (zip (encoded_columns d (lib_categories lib (model res)))
                           (lib_feature_importances lib (model res))))))"
proof -
  let ?imps = "lib_feature_importances lib (model res)"
  from assms(1) obtain d c1 c2 where d: "deref w df = Inr d"
    and c: "lib_categories lib (model res) = [c1, c2]"
    and t: "feature_importance res = dict_of (top_pairs (encoded_columns d [c1, c2]) ?imps)"
    by (rule train_model_table)
  let ?names = "encoded_columns d [c1, c2]"
  from assms(2) c have "distinct c1" "distinct c2" by simp_all
  then have "distinct ?names" by (rule encoded_columns_distinct)
  then have "distinct (map fst (top_pairs ?names ?imps))" by (rule top_pairs_distinct)
  then have fi: "feature_importance res = top_pairs ?names ?imps"
    unfolding t by (rule dict_of_distinct)
  have 1: "length (feature_importance res) \<le> 8"
    unfolding fi by (rule top_pairs_length)
  have 2: "list_all (\<lambda>(k, v). 0 \<le> v) (feature_importance res)"
  proof -
    have "0 \<le> v" if "(k, v) \<in> set (top_pairs ?names ?imps)" for k v
    proof -
      from that top_pairs_subset have "(k, v) \<in> set (zip ?names ?imps)" by blast
      then have "v \<in> set ?imps" by (rule set_zip_rightD)
      with assms(3) show ?thesis by (simp add: list_all_iff)
    qed
    then show ?thesis unfolding fi by (auto simp: list_all_iff)
  qed
  have 3: "sorted_wrt (\<ge>) (map snd (feature_importance res))"
    unfolding fi by (rule top_pairs_sorted)
  have 4: "prefix (filter (\<lambda>p. snd p = v) (feature_importance res))
                   (filter (\<lambda>p. snd p = v) (zip (encoded_columns d (lib_categories lib (model res))) ?imps))" for v
    unfolding fi c by (rule top_pairs_ties)
  from 1 2 3 4 d show ?thesis by blast
qed

lemma example_table:
  "feature_importance (fst (projr (run_pipeline example_library no_rng (Some ''in.csv'') ''out.csv'' False 0 example_world)))
     = [(''salary_band_B'', 4/10), (''dept_HR'', 3/10), (''salary_band_A'', 2/10), (''tenure_months'', 1/10),
        (''last_promotion_months'', 0), (''manager_span'', 0), (''overtime_hours_month'', 0),
        (''engagement_score'', 0)]"
  by code_simp

lemma example_train_succeeds:
  "\<not> isl (train_model example_library 0
      \<lparr>heap = (\<lambda>r. None)(0 \<mapsto> \<lparr>nrows = 2, cols = dict_set ''exit_flag'' (NumCol [1, 0]) (cols example_frame)\<rparr>),
       next_ref = 1, files = (\<lambda>p. None)\<rparr>)"
  by code_simp

theorem importance_table_order_witness:
  "\<exists>res w'. train_model example_library 0
      \<lparr>heap = (\<lambda>r. None)(0 \<mapsto> \<lparr>nrows = 2, cols = dict_set ''exit_flag'' (NumCol [1, 0]) (cols example_frame)\<rparr>),
       next_ref = 1, files = (\<lambda>p. None)\<rparr> = Inr (res, w')
     \<and> length (feature_importance res) \<le> 8
     \<and> sorted_wrt (\<ge>) (map snd (feature_importance res))"
proof -
  let ?w = "\<lparr>heap = (\<lambda>r. None)(0 \<mapsto> \<lparr>nrows = 2, cols = dict_set ''exit_flag'' (NumCol [1, 0]) (cols example_frame)\<rparr>),
       next_ref = 1, files = (\<lambda>p. None)\<rparr>"
  obtain res w' where t: "train_model example_library 0 ?w = Inr (res, w')"
    using example_train_succeeds by (cases "train_model example_library 0 ?w") auto
  then have m: "model res = (ohe_fit [[''Sales'', ''HR''], [''A'', ''B'']],
                  [1/10, 0, 0, 0, 0, 0, 0, 0, 0, 3/10, 0, 2/10, 4/10])"
    unfolding train_model_def example_library_def stub_library_def
    by (auto simp: bnd_Inr_iff Let_def case_prod_beta deref_def columns_def example_frame_def
          REQUIRED_COLUMNS_def select_def build_pipeline_def cat_column_def TARGET_COLUMN_def
        split: if_splits)
  have f: "ohe_fit [[''Sales'', ''HR''], [''A'', ''B'']] = [[''HR'', ''Sales''], [''A'', ''B'']]"
    by code_simp
  have 2: "list_all distinct (lib_categories example_library (model res))"
    unfolding m f by (simp add: example_library_def stub_library_def)
  have 3: "list_all (\<lambda>x. 0 \<le> x) (lib_feature_importances example_library (model res))"
    unfolding m by (simp add: example_library_def stub_library_def)
  from importance_table_order[OF t 2 3] t show ?thesis by blast
qed


text \<open>
  Claim C4, as amended. The keys of the table are names of encoded columns: a numeric
  field keeps its name, and the column of a level of a categorical field is reported
  under the expanded name made of the field, an underscore and the level, which is never
  the name of an input field. (The claim as stated, that every key is an original field
  name, fails on the example run below.)
\<close>

theorem importance_keys_are_encoded_columns:
  assumes "train_model lib df w = Inr (res, w')"
  shows "(\<exists>d. deref w df = Inr d
            \<and> set (map fst (feature_importance res))
                \<subseteq> set (encoded_columns d (lib_categories lib (model res))))
       \<and> (\<forall>k \<in> set (map fst (feature_importance res)).
             (k \<in> set REQUIRED_COLUMNS \<and> k \<notin> {''employee_id'', ''dept'', ''salary_band''})
           \<or> (\<exists>c \<in> set (lib_categories lib (model res) ! 0). k = ''dept_'' @ c)
           \<or> (\<exists>c \<in> set (lib_categories lib (model res) ! 1). k = ''salary_band_'' @ c))
       \<and> (\<forall>c. ''dept_'' @ c \<notin> set REQUIRED_COLUMNS \<and> ''salary_band_'' @ c \<notin> set REQUIRED_COLUMNS)"
proof -
  let ?imps = "lib_feature_importances lib (model res)"
  from assms obtain d c1 c2 where d: "deref w df = Inr d"
    and c: "lib_categories lib (model res) = [c1, c2]"
    and t: "feature_importance res = dict_of (top_pairs (encoded_columns d [c1, c2]) ?imps)"
    by (rule train_model_table)
  have "set (map fst (feature_importance res)) = set (map fst (top_pairs (encoded_columns d [c1, c2]) ?imps))"
    unfolding t by (rule keys_dict_of)
  also have "\<dots> \<subseteq> set (map fst (zip (encoded_columns d [c1, c2]) ?imps))"
    using top_pairs_subset[of "encoded_columns d [c1, c2]" ?imps] by auto
  also have "\<dots> \<subseteq> set (encoded_columns d [c1, c2])"
    by (auto dest: set_zip_leftD)
  finally have sub: "set (map fst (feature_importance res)) \<subseteq> set (encoded_columns d [c1, c2])" .
  have k: "(k \<in> set REQUIRED_COLUMNS \<and> k \<notin> {''employee_id'', ''dept'', ''salary_band''})
           \<or> (\<exists>c \<in> set (lib_categories lib (model res) ! 0). k = ''dept_'' @ c)
           \<or> (\<exists>c \<in> set (lib_categories lib (model res) ! 1). k = ''salary_band_'' @ c)"
    if "k \<in> set (map fst (feature_importance res))" for k
  proof -
    from that sub have "k \<in> set (encoded_columns d [c1, c2])" by blast
    then show ?thesis
      unfolding c encoded_columns_def by auto
  qed
  from d sub k expanded_names_not_required show ?thesis
    unfolding c by blast
qed

theorem importance_keys_are_encoded_columns_witness:
  "\<exists>res w'. train_model example_library 0
      \<lparr>heap = (\<lambda>r. None)(0 \<mapsto> \<lparr>nrows = 2, cols = dict_set ''exit_flag'' (NumCol [1, 0]) (cols example_frame)\<rparr>),
       next_ref = 1, files = (\<lambda>p. None)\<rparr> = Inr (res, w')
     \<and> (\<forall>k \<in> set (map fst (feature_importance res)).
             (k \<in> set REQUIRED_COLUMNS \<and> k \<notin> {''employee_id'', ''dept'', ''salary_band''})
           \<or> (\<exists>c \<in> set (lib_categories example_library (model res) ! 0). k = ''dept_'' @ c)
           \<or> (\<exists>c \<in> set (lib_categories example_library (model res) ! 1). k = ''salary_band_'' @ c))"
proof -
  let ?w = "\<lparr>heap = (\<lambda>r. None)(0 \<mapsto> \<lparr>nrows = 2, cols = dict_set ''exit_flag'' (NumCol [1, 0]) (cols example_frame)\<rparr>),
       next_ref = 1, files = (\<lambda>p. None)\<rparr>"
  obtain res w' where t: "train_model example_library 0 ?w = Inr (res, w')"
    using example_train_succeeds by (cases "train_model example_library 0 ?w") auto
  from importance_keys_are_encoded_columns[OF t] t show ?thesis by blast
qed

text \<open>
  The example run: the heaviest key is the expanded name of a level of the salary band,
  which is not one of the input fields.
\<close>

theorem importance_keys_original_counterexample:
  "\<not> isl (run_pipeline example_library no_rng (Some ''in.csv'') ''out.csv'' False 0 example_world)
   \<and> map fst (feature_importance (fst (projr
        (run_pipeline example_library no_rng (Some ''in.csv'') ''out.csv'' False 0 example_world))))
      = [''salary_band_B'', ''dept_HR'', ''salary_band_A'', ''tenure_months'',
         ''last_promotion_months'', ''manager_span'', ''overtime_hours_month'', ''engagement_score'']
   \<and> ''salary_band_B'' \<notin> set REQUIRED_COLUMNS"
proof -
  have "''salary_band_B'' \<notin> set REQUIRED_COLUMNS"
    by (simp add: REQUIRED_COLUMNS_def)
  with example_run_succeeds example_table show ?thesis by simp
qed

section \<open>The top driver\<close>

lemma max_from_first_maximum:
  "\<exists>pre post. best # xs = pre @ max_from best xs # post
      \<and> (\<forall>e \<in> set pre. snd e < snd (max_from best xs))
      \<and> (\<forall>e \<in> set post. snd e \<le> snd (max_from best xs))"
proof (induction xs arbitrary: best)
  case Nil
  show ?case
    by (rule exI[of _ "[]"], rule exI[of _ "[]"]) simp
next
  case (Cons x xs)
  show ?case
  proof (cases "snd x > snd best")
    case True
    then have m: "max_from best (x # xs) = max_from x xs" by simp
    from Cons.IH[of x] obtain pre post where
      s: "x # xs = pre @ max_from x xs # post"
        "\<forall>e \<in> set pre. snd e < snd (max_from x xs)"
        "\<forall>e \<in> set post. snd e \<le> snd (max_from x xs)"
      by blast
    have "x \<in> set (pre @ max_from x xs # post)"
      unfolding s(1)[symmetric] by simp
    then have "snd x \<le> snd (max_from x xs)"
      using s(2,3) by auto
    with True have "snd best < snd (max_from x xs)" by simp
    with s show ?thesis
      unfolding m by (intro exI[of _ "best # pre"] exI[of _ post]) simp
  next
    case False
    then have m: "max_from best (x # xs) = max_from best xs" by simp
    from Cons.IH[of best] obtain pre post where
      s: "best # xs = pre @ max_from best xs # post"
        "\<forall>e \<in> set pre. snd e < snd (max_from best xs)"
        "\<forall>e \<in> set post. snd e \<le> snd (max_from best xs)"
      by blast
    show ?thesis
    proof (cases pre)
      case Nil
      from s(1) have "best # xs = max_from best xs # post"
        unfolding Nil by (simp only: append_Nil)
      then have e: "max_from best xs = best" "post = xs" by (metis list.inject)+
      from s(3) False e show ?thesis
        unfolding m by (intro exI[of _ "[]"] exI[of _ "x # xs"]) auto
    next
      case (Cons b pre')
      from s(1) have "best # xs = b # (pre' @ max_from best xs # post)"
        unfolding Cons by (simp only: append_Cons)
      then have b: "b = best" and xs: "xs = pre' @ max_from best xs # post"
        by (metis list.inject)+
      have "best \<in> set pre" unfolding Cons b by simp
      with s(2) have "snd best < snd (max_from best xs)" by blast
      with False have lt: "snd x < snd (max_from best xs)" by simp
      have A: "best # x # xs = (best # x # pre') @ max_from best xs # post"
        using arg_cong[OF xs, of "\<lambda>l. best # x # l"] by (simp only: append_Cons)
      have B: "\<forall>e \<in> set (best # x # pre'). snd e < snd (max_from best xs)"
        using s(2) lt unfolding Cons b by simp
      show ?thesis
        unfolding m
        by (intro exI[of _ "best # x # pre'"] exI[of _ post] conjI) (rule A, rule B, rule s(3))
    qed
  qed
qed

lemma replace_nonempty_absent:
  "\<not> sublist old s \<Longrightarrow> replace_nonempty old new s = s"
proof (induction old new s rule: replace_nonempty.induct)
  case (1 old new)
  then show ?case by simp
next
  case (2 old new c cs)
  from "2.prems" have np: "\<not> prefix old (c # cs)" and ns: "\<not> sublist old cs"
    by (auto simp: sublist_Cons_right)
  with "2.IH"(2) show ?case by simp
qed

lemma str_replace_absent: "old \<noteq> [] \<Longrightarrow> \<not> sublist old s \<Longrightarrow> str_replace s old new = s"
  by (simp add: str_replace_def replace_nonempty_absent)


lemma top_driver_summary_nonempty:
  assumes "importances \<noteq> []"
  shows "\<exists>pre top post. importances = pre @ top # post
      \<and> (\<forall>e \<in> set pre. snd e < snd top) \<and> (\<forall>e \<in> set post. snd e \<le> snd top)
      \<and> top_driver_summary importances = str_replace (str_replace (fst top) ''cat__'' []) ''num__'' []"
proof -
  from assms obtain first rest where i: "importances = first # rest"
    by (cases importances) auto
  from max_from_first_maximum[of first rest] obtain pre post where
    m: "first # rest = pre @ max_from first rest # post"
      "\<forall>e \<in> set pre. snd e < snd (max_from first rest)"
      "\<forall>e \<in> set post. snd e \<le> snd (max_from first rest)"
    by blast
  have t: "top_driver_summary importances =
      str_replace (str_replace (fst (max_from first rest)) ''cat__'' []) ''num__'' []"
    unfolding i by (simp add: top_driver_summary_def Let_def)
  show ?thesis
    unfolding i
    by (intro exI[of _ pre] exI[of _ "max_from first rest"] exI[of _ post] conjI)
       (rule m(1), rule m(2), rule m(3), rule t[unfolded i])
qed

text \<open>
  Claim C6, as amended. In a run that succeeds with a non-empty table, every record of
  the output carries one and the same tag: the key of the first entry of greatest weight
  of the table of that run, with every occurrence of \<open>cat__\<close> and then of \<open>num__\<close> removed.
  The tag is that key itself whenever the key contains neither. (That the tag always equals
  the key fails on the run below, where a department is named \<open>cat__ops\<close>.)
\<close>

theorem top_driver_is_stripped_top_key:
  assumes "run_pipeline lib rng input_path output_path flag rows w = Inr (res, w')"
    and "feature_importance res \<noteq> []"
  shows "\<exists>out pre top post.
           files w' output_path = Some out
         \<and> feature_importance res = pre @ top # post
         \<and> (\<forall>e \<in> set pre. snd e < snd top) \<and> (\<forall>e \<in> set post. snd e \<le> snd top)
         \<and> getitem out ''top_driver'' =
              Inr (StrCol (replicate (nrows out)
                    (str_replace (str_replace (fst top) ''cat__'' []) ''num__'' [])))
         \<and> (\<not> sublist ''cat__'' (fst top) \<and> \<not> sublist ''num__'' (fst top) \<longrightarrow>
              getitem out ''top_driver'' = Inr (StrCol (replicate (nrows out) (fst top))))"
proof -
  from assms(1) obtain df w1 training_df w2 w3 raw w4 where
    wo: "write_output df raw (feature_importance res) output_path w4 = Inr w'"
    by (rule run_pipeline_Inr)
  from write_output_columns[OF wo] obtain out where
    out: "files w' output_path = Some out"
      "getitem out ''top_driver'' =
         Inr (StrCol (replicate (nrows out) (top_driver_summary (feature_importance res))))"
    by blast
  from top_driver_summary_nonempty[OF assms(2)] obtain pre top post where
    t: "feature_importance res = pre @ top # post"
      "\<forall>e \<in> set pre. snd e < snd top" "\<forall>e \<in> set post. snd e \<le> snd top"
      "top_driver_summary (feature_importance res) =
         str_replace (str_replace (fst top) ''cat__'' []) ''num__'' []"
    by blast
  have g: "getitem out ''top_driver'' =
      Inr (StrCol (replicate (nrows out) (str_replace (str_replace (fst top) ''cat__'' []) ''num__'' [])))"
    using out(2) unfolding t(4) .
  have same: "getitem out ''top_driver'' = Inr (StrCol (replicate (nrows out) (fst top)))"
    if "\<not> sublist ''cat__'' (fst top) \<and> \<not> sublist ''num__'' (fst top)"
  proof -
    have "str_replace (fst top) ''cat__'' [] = fst top"
      using that by (intro str_replace_absent) simp_all
    moreover have "str_replace (fst top) ''num__'' [] = fst top"
      using that by (intro str_replace_absent) simp_all
    ultimately show ?thesis using g by simp
  qed
  show ?thesis
    using out(1) t(1-3) g same
    by (intro exI[of _ out] exI[of _ pre] exI[of _ top] exI[of _ post]) simp
qed

theorem top_driver_is_stripped_top_key_witness:
  "\<exists>res w' out pre top post.
      run_pipeline example_library no_rng (Some ''in.csv'') ''out.csv'' False 0 example_world = Inr (res, w')
    \<and> files w' ''out.csv'' = Some out
    \<and> feature_importance res = pre @ top # post
    \<and> getitem out ''top_driver'' =
         Inr (StrCol (replicate (nrows out) (str_replace (str_replace (fst top) ''cat__'' []) ''num__'' [])))"
proof -
  obtain res w' where
    r: "run_pipeline example_library no_rng (Some ''in.csv'') ''out.csv'' False 0 example_world = Inr (res, w')"
    using example_run_succeeds
    by (cases "run_pipeline example_library no_rng (Some ''in.csv'') ''out.csv'' False 0 example_world") auto
  then have "fst (projr (run_pipeline example_library no_rng (Some ''in.csv'') ''out.csv'' False 0 example_world)) = res"
    by simp
  then have ne: "feature_importance res \<noteq> []"
    using example_table by auto
  from top_driver_is_stripped_top_key[OF r ne] r show ?thesis by blast
qed

text \<open>
  A run on an input whose first department is named \<open>cat__ops\<close>: the heaviest key is
  \<open>dept_cat__ops\<close>, and the tag written for both records is \<open>dept_ops\<close>.
\<close>

theorem top_driver_equals_key_counterexample:
  "\<not> isl (run_pipeline example_library_prefixed no_rng (Some ''in.csv'') ''out.csv'' False 0 example_world_prefixed)
   \<and> feature_importance (fst (projr
        (run_pipeline example_library_prefixed no_rng (Some ''in.csv'') ''out.csv'' False 0 example_world_prefixed)))
      = [(''dept_cat__ops'', 9/10), (''dept_HR'', 1/10), (''tenure_months'', 0),
         (''last_promotion_months'', 0), (''manager_span'', 0), (''overtime_hours_month'', 0),
         (''engagement_score'', 0), (''absenteeism_days_month'', 0)]
   \<and> getitem (the (files (snd (projr
        (run_pipeline example_library_prefixed no_rng (Some ''in.csv'') ''out.csv'' False 0 example_world_prefixed)))
        ''out.csv'')) ''top_driver''
      = Inr (StrCol [''dept_ops'', ''dept_ops''])"
  by code_simp

end
